theory Spec2Isabelle
  imports Complex_Main
begin

section \<open>Data model of the program tester (src/test.py)\<close>

text \<open>
  The analysis functions of \<^verbatim>\<open>src/test.py\<close> exchange Python dictionaries with a fixed set
  of keys; each such dictionary is a record here, with one field per key.  Where two
  dictionaries share a key (\<^verbatim>\<open>ok\<close>, \<^verbatim>\<open>lineno\<close>, \<^verbatim>\<open>name\<close>, \<^verbatim>\<open>detail\<close>), or a key is a
  reserved word of Isabelle (\<^verbatim>\<open>syntax\<close>, \<^verbatim>\<open>text\<close>, \<^verbatim>\<open>functions\<close>, \<^verbatim>\<open>notes\<close>), the field carries a prefix
  naming its dictionary.  Counters that the source obtains from \<^verbatim>\<open>len\<close>, from \<^verbatim>\<open>sum\<close> over a
  generator of ones, or by \<^verbatim>\<open>+= 1\<close> from zero are natural numbers; the score, which is
  decremented, is an integer.
\<close>

record syntax_error =
  err_type :: string
  err_msg :: string
  err_lineno :: "int option"
  err_offset :: "int option"
  err_text :: string

record syntax_result =
  syn_ok :: bool
  syn_error :: "syntax_error option"

record style_counts =
  total_lines :: nat
  long_lines_gt_100 :: nat
  trailing_whitespace_lines :: nat
  tab_char_lines :: nat
  mixed_indentation :: nat

record style_issue =
  issue_line :: "nat option"
  issue_type :: string
  issue_detail :: string

record style_report =
  counts :: style_counts
  issues :: "style_issue list"

record risk_flag =
  flag_pattern :: string
  flag_detail :: string

record risk_report =
  flags :: "risk_flag list"

record comment_report =
  comment_lines :: nat
  comment_total_lines :: nat
  comment_density :: rat
  sample_comments :: "string list"

record def_info =
  def_name :: string
  def_lineno :: int
  has_docstring :: bool

record naming_issue =
  naming_type :: string
  naming_name :: string
  naming_lineno :: int

record docstrings_naming_report =
  module_has_docstring :: bool
  module_docstring_length :: nat
  ds_functions :: "def_info list"
  ds_classes :: "def_info list"
  missing_function_docstrings :: nat
  missing_class_docstrings :: nat
  naming_issues :: "naming_issue list"

record complexity_entry =
  cx_name :: string
  cx_lineno :: int
  cx_complexity :: int

text \<open>
  The \<^verbatim>\<open>ast\<close> block of the static report is either \<^verbatim>\<open>{"ok": False, "error": ...}\<close> or
  \<^verbatim>\<open>{"ok": True, "docstrings_naming": ..., "complexity_top5": ..., "complexity_all": ...}\<close>.
\<close>

datatype ast_block =
  AstFailed string
| AstOk docstrings_naming_report "complexity_entry list" "complexity_entry list"

fun ast_ok :: "ast_block \<Rightarrow> bool" where
  "ast_ok (AstFailed _) = False"
| "ast_ok (AstOk _ _ _) = True"

record static_report =
  rep_syntax :: syntax_result
  rep_style :: style_report
  rep_risky_patterns :: risk_report
  rep_comments :: comment_report
  rep_ast :: ast_block

text \<open>
  Output captured from a child process.  \<^verbatim>\<open>subprocess.run(..., text=True)\<close> gives \<^verbatim>\<open>str\<close>
  on a process that ends; the \<^verbatim>\<open>stdout\<close> and \<^verbatim>\<open>stderr\<close> of a \<^verbatim>\<open>TimeoutExpired\<close> are
  \<^verbatim>\<open>None\<close>, \<^verbatim>\<open>bytes\<close> (on POSIX, whenever something was captured) or \<^verbatim>\<open>str\<close>.  The code
  stores them as they come, so the fields that hold them carry the tag.
\<close>

datatype captured = Str string | Bytes string

record test_report =
  test_ok :: bool
  test_returncode :: int
  test_seconds :: rat
  test_timed_out :: bool
  test_command :: "string list"
  test_stdout :: captured
  test_stderr :: captured

record verdict_result =
  v_score :: int
  v_level :: string
  v_notes :: "string list"

section \<open>Rendering of numbers in f-strings\<close>

definition digit_char :: "nat \<Rightarrow> char" where
  "digit_char d = char_of (48 + d)"

function str_nat :: "nat \<Rightarrow> string" where
  "str_nat n = (if n < 10 then [digit_char n] else str_nat (n div 10) @ [digit_char (n mod 10)])"
  by pat_completeness auto
termination
  by (relation "measure id") auto

declare str_nat.simps [simp del]

definition str_int :: "int \<Rightarrow> string" where
  "str_int i = (if i < 0 then CHR ''-'' # str_nat (nat (- i)) else str_nat (nat i))"

section \<open>Python string operations used by the analysers\<close>

text \<open>
  A \<^typ>\<open>string\<close> stands for a Python \<^verbatim>\<open>str\<close> whose code points are below 256, one
  \<^typ>\<open>char\<close> per code point.  \<^verbatim>\<open>str.splitlines\<close> breaks a text after each of the line
  boundaries \<^verbatim>\<open>\n \r \r\n \v \f \x1c \x1d \x1e \x85\<close> (the two boundaries above code point 255
  are outside this character type).
\<close>

definition is_line_boundary :: "char \<Rightarrow> bool" where
  "is_line_boundary c \<longleftrightarrow>
     c \<in> set [CHR 0x0A, CHR 0x0D, CHR 0x0B, CHR 0x0C, CHR 0x1C, CHR 0x1D, CHR 0x1E, CHR 0x85]"

text \<open>\<^verbatim>\<open>splitlines_from cur rest\<close>: \<^verbatim>\<open>cur\<close> is the line read so far, \<^verbatim>\<open>rest\<close> the unread text.\<close>

fun splitlines_from :: "string \<Rightarrow> string \<Rightarrow> string list" where
  "splitlines_from cur [] = (if cur = [] then [] else [cur])"
| "splitlines_from cur [c] = [cur @ [c]]"
| "splitlines_from cur (c # d # ds) =
     (if c = CHR 0x0D \<and> d = CHR 0x0A then (cur @ [c, d]) # splitlines_from [] ds
      else if is_line_boundary c then (cur @ [c]) # splitlines_from [] (d # ds)
      else splitlines_from (cur @ [c]) (d # ds))"

text \<open>\<^verbatim>\<open>source.splitlines(True)\<close>: the line ends are kept.\<close>

definition splitlines_keepends :: "string \<Rightarrow> string list" where
  "splitlines_keepends source = splitlines_from [] source"

definition drop_line_end :: "string \<Rightarrow> string" where
  "drop_line_end l =
     (let n = length l in
      if 2 \<le> n \<and> drop (n - 2) l = [CHR 0x0D, CHR 0x0A] then take (n - 2) l
      else if 1 \<le> n \<and> is_line_boundary (last l) then take (n - 1) l
      else l)"

text \<open>\<^verbatim>\<open>source.splitlines()\<close>: the line ends are dropped.\<close>

definition splitlines :: "string \<Rightarrow> string list" where
  "splitlines source = map drop_line_end (splitlines_keepends source)"

definition rstrip :: "string \<Rightarrow> string \<Rightarrow> string" where
  "rstrip chars s = rev (dropWhile (\<lambda>c. c \<in> set chars) (rev s))"

definition lstrip :: "string \<Rightarrow> string \<Rightarrow> string" where
  "lstrip chars s = dropWhile (\<lambda>c. c \<in> set chars) s"

definition py_whitespace :: string where
  "py_whitespace =
     [CHR 0x09, CHR 0x0A, CHR 0x0B, CHR 0x0C, CHR 0x0D, CHR 0x1C, CHR 0x1D, CHR 0x1E, CHR 0x1F,
      CHR 0x20, CHR 0x85, CHR 0xA0]"

text \<open>\<^verbatim>\<open>s.strip()\<close> with no argument removes white space on both sides.\<close>

definition strip :: "string \<Rightarrow> string" where
  "strip s = rstrip py_whitespace (lstrip py_whitespace s)"

definition startswith :: "string \<Rightarrow> string \<Rightarrow> bool" where
  "startswith s pre \<longleftrightarrow> take (length pre) s = pre"

definition endswith :: "string \<Rightarrow> string \<Rightarrow> bool" where
  "endswith s suf \<longleftrightarrow> length suf \<le> length s \<and> drop (length s - length suf) s = suf"

text \<open>\<^verbatim>\<open>key in s\<close> on strings: \<^verbatim>\<open>key\<close> occurs in \<^verbatim>\<open>s\<close> as a contiguous substring.\<close>

fun contains :: "string \<Rightarrow> string \<Rightarrow> bool" where
  "contains key [] = (key = [])"
| "contains key (c # cs) = (startswith (c # cs) key \<or> contains key cs)"

section \<open>The Python runtime as a parameter\<close>

text \<open>
  The analysers call into the interpreter: \<^verbatim>\<open>compile\<close>, \<^verbatim>\<open>ast.parse\<close>,
  \<^verbatim>\<open>tokenize.generate_tokens\<close>, \<^verbatim>\<open>inspect.cleandoc\<close> (inside \<^verbatim>\<open>ast.get_docstring\<close>),
  \<^verbatim>\<open>subprocess.run\<close>, and the arithmetic of binary floating-point numbers.  Their results are not computed by this program, so they are
  parameters of the model, with every outcome the program distinguishes as a value.
\<close>

datatype compile_outcome =
  Compiled
| RaisesSyntaxError string "int option" "int option" "string option"
    \<comment> \<open>\<^verbatim>\<open>str(e)\<close>, \<^verbatim>\<open>e.lineno\<close>, \<^verbatim>\<open>e.offset\<close>, \<^verbatim>\<open>e.text\<close>\<close>
| RaisesOther string
    \<comment> \<open>any exception that is not a \<^verbatim>\<open>SyntaxError\<close>, by its rendering\<close>

datatype proc_outcome =
  Completed int string string rat
    \<comment> \<open>return code, captured stdout, captured stderr, elapsed seconds\<close>
| TimeoutExpired "captured option" "captured option" rat
    \<comment> \<open>\<^verbatim>\<open>e.stdout\<close>, \<^verbatim>\<open>e.stderr\<close>, elapsed seconds\<close>
| SpawnRaises string
    \<comment> \<open>\<^verbatim>\<open>subprocess.run\<close> raised something else (for instance \<^verbatim>\<open>OSError\<close>)\<close>

text \<open>
  A node of Python's \<^verbatim>\<open>ast\<close>: its class, its \<^verbatim>\<open>lineno\<close>, and its node-valued fields in
  the order of \<^verbatim>\<open>_fields\<close>, each with the list of nodes it holds (a field holding one node
  is a singleton list, an absent optional field the empty list).  A function or class
  name is carried by the class tag, a string constant by \<^verbatim>\<open>ConstantStr\<close>; constants of
  other types and all classes the program never tests for are \<^verbatim>\<open>OtherNode\<close>.
\<close>

datatype node_kind =
  Module | FunctionDef string | AsyncFunctionDef string | ClassDef string
| If_stmt | For | AsyncFor | While | With | AsyncWith | Try | TryStar | ExceptHandler
| BoolOp | Match | IfExp | Expr | ConstantStr string | OtherNode string

datatype ast_node =
  Node (kind: node_kind) (lineno: int) (node_fields: "(string \<times> ast_node list) list")

record python =
  py_compile :: "string \<Rightarrow> compile_outcome"
  py_parse :: "string \<Rightarrow> string + ast_node"
  py_comment_tokens :: "string \<Rightarrow> string list option"
  py_cleandoc :: "string \<Rightarrow> string"
  py_run :: "string list \<Rightarrow> nat \<Rightarrow> proc_outcome"
  py_executable :: string
  py_round :: "rat \<Rightarrow> nat \<Rightarrow> rat"

text \<open>
  \<^verbatim>\<open>py_parse\<close> is \<^verbatim>\<open>ast.parse\<close> (\<^verbatim>\<open>Inl\<close> the rendering of the exception raised);
  \<^verbatim>\<open>py_comment_tokens\<close> gives the strings of the \<^verbatim>\<open>COMMENT\<close> tokens of a text, or
  \<^verbatim>\<open>None\<close> when the tokenizer raises before the end; \<^verbatim>\<open>py_run cmd timeout\<close> is
  \<^verbatim>\<open>subprocess.run\<close> of \<^verbatim>\<open>cmd\<close> in the staging directory of the uploaded file;
  \<^verbatim>\<open>py_executable\<close> is \<^verbatim>\<open>sys.executable\<close>.  The quantities that the source holds as
  floats (a quotient of two counters, a difference of two clock readings) are given here
  by their exact value, and \<^verbatim>\<open>py_round x ndigits\<close> is what \<^verbatim>\<open>round\<close> returns on the float
  of that value; no claim reads a rounded field.
\<close>

section \<open>The sandboxed run: \<^verbatim>\<open>RunResult\<close> and \<^verbatim>\<open>safe_run\<close>\<close>

record RunResult =
  run_ok :: bool
  run_returncode :: int
  run_stdout :: captured
  run_stderr :: captured
  run_seconds :: rat
  run_timed_out :: bool

text \<open>\<^verbatim>\<open>x or ""\<close> on an optional string.\<close>

definition or_else :: "string option \<Rightarrow> string \<Rightarrow> string" where
  "or_else x d = (case x of None \<Rightarrow> d | Some v \<Rightarrow> if v = [] then d else v)"

text \<open>
  \<^verbatim>\<open>x or d\<close> on captured output, with \<^verbatim>\<open>d\<close> a string: \<^verbatim>\<open>None\<close>, \<^verbatim>\<open>""\<close> and \<^verbatim>\<open>b""\<close> are
  false and give \<^verbatim>\<open>d\<close>; anything else stays what it is.
\<close>

definition captured_or :: "captured option \<Rightarrow> string \<Rightarrow> captured" where
  "captured_or x d =
     (case x of
        None \<Rightarrow> Str d
      | Some (Str v) \<Rightarrow> if v = [] then Str d else Str v
      | Some (Bytes v) \<Rightarrow> if v = [] then Str d else Bytes v)"

definition safe_run :: "python \<Rightarrow> string list \<Rightarrow> nat \<Rightarrow> string + RunResult" where
  "safe_run py cmd timeout_sec =
     (case py_run py cmd timeout_sec of
        Completed rc out err dt \<Rightarrow>
          Inr \<lparr>run_ok = (rc = 0), run_returncode = rc,
               run_stdout = captured_or (Some (Str out)) [],
               run_stderr = captured_or (Some (Str err)) [],
               run_seconds = dt, run_timed_out = False\<rparr>
      | TimeoutExpired out err dt \<Rightarrow>
          Inr \<lparr>run_ok = False, run_returncode = 124,
               run_stdout = captured_or out [],
               run_stderr = captured_or err ''Process timed out.'',
               run_seconds = dt, run_timed_out = True\<rparr>
      | SpawnRaises e \<Rightarrow> Inl e)"

section \<open>Syntax validator\<close>

definition syntax_check :: "python \<Rightarrow> string \<Rightarrow> string + syntax_result" where
  "syntax_check py source =
     (case py_compile py source of
        Compiled \<Rightarrow> Inr \<lparr>syn_ok = True, syn_error = None\<rparr>
      | RaisesSyntaxError m ln_opt off_opt txt \<Rightarrow>
          Inr \<lparr>syn_ok = False,
               syn_error = Some \<lparr>err_type = ''SyntaxError'', err_msg = m, err_lineno = ln_opt,
                                 err_offset = off_opt,
                                 err_text = rstrip [CHR 0x0A] (or_else txt [])\<rparr>\<rparr>
      | RaisesOther e \<Rightarrow> Inl e)"

section \<open>Style scanner\<close>

text \<open>The loop state of \<^verbatim>\<open>style_check\<close>: its four mutated locals.\<close>

record style_state =
  st_counts :: style_counts
  st_issues :: "style_issue list"
  has_tab_indent :: bool
  has_space_indent :: bool

text \<open>One iteration of the \<^verbatim>\<open>for i, line in enumerate(lines, start=1)\<close> loop.\<close>

definition style_line :: "nat \<Rightarrow> string \<Rightarrow> style_state \<Rightarrow> style_state" where
  "style_line i line st =
     (let raw = rstrip [CHR 0x0A] line;
          st = (if length raw > 100
                then st\<lparr>st_counts := (st_counts st)\<lparr>long_lines_gt_100 :=
                                          long_lines_gt_100 (st_counts st) + 1\<rparr>,
                        st_issues := st_issues st @
                          [\<lparr>issue_line = Some i, issue_type = ''LongLine'',
                            issue_detail = ''Length='' @ str_nat (length raw) @ '' > 100''\<rparr>]\<rparr>
                else st);
          st = (if raw \<noteq> rstrip [CHR 0x20, CHR 0x09] raw
                then st\<lparr>st_counts := (st_counts st)\<lparr>trailing_whitespace_lines :=
                                          trailing_whitespace_lines (st_counts st) + 1\<rparr>,
                        st_issues := st_issues st @
                          [\<lparr>issue_line = Some i, issue_type = ''TrailingWhitespace'',
                            issue_detail = ''Trailing spaces/tabs''\<rparr>]\<rparr>
                else st);
          st = (if CHR 0x09 \<in> set line
                then st\<lparr>st_counts := (st_counts st)\<lparr>tab_char_lines :=
                                          tab_char_lines (st_counts st) + 1\<rparr>\<rparr>
                else st);
          st = (if startswith line [CHR 0x09] then st\<lparr>has_tab_indent := True\<rparr> else st);
          st = (if startswith line [CHR 0x20] then st\<lparr>has_space_indent := True\<rparr> else st)
      in st)"

fun style_loop :: "nat \<Rightarrow> string list \<Rightarrow> style_state \<Rightarrow> style_state" where
  "style_loop i [] st = st"
| "style_loop i (line # rest) st = style_loop (Suc i) rest (style_line i line st)"

definition style_check :: "string \<Rightarrow> style_report" where
  "style_check source =
     (let lines = splitlines_keepends source;
          st = \<lparr>st_counts = \<lparr>total_lines = length lines, long_lines_gt_100 = 0,
                              trailing_whitespace_lines = 0, tab_char_lines = 0,
                              mixed_indentation = 0\<rparr>,
                st_issues = [], has_tab_indent = False, has_space_indent = False\<rparr>;
          st = style_loop 1 lines st;
          st = (if has_tab_indent st \<and> has_space_indent st
                then st\<lparr>st_counts := (st_counts st)\<lparr>mixed_indentation := 1\<rparr>,
                        st_issues := st_issues st @
                          [\<lparr>issue_line = None, issue_type = ''MixedIndentation'',
                            issue_detail = ''Both tabs and spaces used for indentation''\<rparr>]\<rparr>
                else st)
      in \<lparr>counts = st_counts st, issues = take 200 (st_issues st)\<rparr>)"

section \<open>Risk pattern scanner\<close>

definition patterns :: "(string \<times> string) list" where
  "patterns =
     [(''eval('', ''Use of eval()''),
      (''exec('', ''Use of exec()''),
      (''os.system'', ''Shell execution via os.system''),
      (''subprocess.Popen'', ''Process spawning via subprocess.Popen''),
      (''pickle.loads'', ''Unsafe deserialization risk (pickle.loads)''),
      (''import *'', ''Wildcard import reduces clarity'')]"

definition risky_patterns :: "string \<Rightarrow> risk_report" where
  "risky_patterns source =
     \<lparr>flags = map (\<lambda>(key, m). \<lparr>flag_pattern = key, flag_detail = m\<rparr>)
                 (filter (\<lambda>(key, m). contains key source) patterns)\<rparr>"

section \<open>Comment density analyser\<close>

definition comment_stats :: "python \<Rightarrow> string \<Rightarrow> comment_report" where
  "comment_stats py source =
     (let cmts = (case py_comment_tokens py source of
                    None \<Rightarrow> []
                  | Some toks \<Rightarrow> map (\<lambda>tok_str. strip (lstrip ''#'' tok_str)) toks);
          total = max 1 (length (splitlines source));
          n = length cmts;
          density = of_nat n / of_nat total
      in \<lparr>comment_lines = n, comment_total_lines = total,
          comment_density = py_round py density 4, sample_comments = take 8 cmts\<rparr>)"

section \<open>Complexity and documentation analyser\<close>

definition field :: "string \<Rightarrow> ast_node \<Rightarrow> ast_node list" where
  "field f n = (case map_of (node_fields n) f of None \<Rightarrow> [] | Some xs \<Rightarrow> xs)"

definition iter_child_nodes :: "ast_node \<Rightarrow> ast_node list" where
  "iter_child_nodes n = concat (map snd (node_fields n))"

fun node_count :: "ast_node \<Rightarrow> nat" where
  "node_count (Node k l fs) = Suc (sum_list (map (\<lambda>f. sum_list (map node_count (snd f))) fs))"

text \<open>
  \<^verbatim>\<open>ast.walk\<close>: breadth-first over a queue that starts with the node; each node taken
  from the front has its children appended at the back.
\<close>

function walk_queue :: "ast_node list \<Rightarrow> ast_node list" where
  "walk_queue [] = []"
| "walk_queue (n # todo) = n # walk_queue (todo @ iter_child_nodes n)"
  by pat_completeness auto
termination
proof (relation "measure (\<lambda>q. sum_list (map node_count q))")
  show "wf (measure (\<lambda>q. sum_list (map node_count q)))"
    by simp
next
  fix n :: ast_node and todo :: "ast_node list"
  have flat: "sum_list (map (\<lambda>f. sum_list (map node_count (snd f))) fs)
              = sum_list (map node_count (concat (map snd fs)))"
    for fs :: "(string \<times> ast_node list) list"
    by (induction fs) simp_all
  show "(todo @ iter_child_nodes n, n # todo) \<in> measure (\<lambda>q. sum_list (map node_count q))"
    by (cases n) (simp add: iter_child_nodes_def flat)
qed

definition walk :: "ast_node \<Rightarrow> ast_node list" where
  "walk n = walk_queue [n]"

text \<open>The increment of one node in the loop of \<^verbatim>\<open>_complexity_of\<close>.\<close>

definition complexity_inc :: "ast_node \<Rightarrow> int" where
  "complexity_inc n =
     (if kind n \<in> {If_stmt, For, While, With, AsyncWith, Try, ExceptHandler} then 1
      else if kind n = BoolOp then max 1 (int (length (field ''values'' n)) - 1)
      else if kind n = Match then 1
      else 0)"

definition complexity_of :: "ast_node \<Rightarrow> int" where
  "complexity_of fn = 1 + sum_list (map complexity_inc (walk fn))"

text \<open>
  \<^verbatim>\<open>ComplexityVisitor.visit\<close>: \<^verbatim>\<open>visit_FunctionDef\<close> and \<^verbatim>\<open>visit_AsyncFunctionDef\<close> record
  an entry and go on with \<^verbatim>\<open>generic_visit\<close>; every other class goes to \<^verbatim>\<open>generic_visit\<close>,
  which visits the children field by field.  The result is the list
  \<^verbatim>\<open>function_complexities\<close> in the order of the appends.
\<close>

fun visit :: "ast_node \<Rightarrow> (string \<times> int \<times> int) list" where
  "visit (Node k l fs) =
     (case k of
        FunctionDef nm \<Rightarrow> [(nm, l, complexity_of (Node k l fs))]
      | AsyncFunctionDef nm \<Rightarrow> [(nm, l, complexity_of (Node k l fs))]
      | _ \<Rightarrow> [])
     @ concat (map (\<lambda>f. concat (map visit (snd f))) fs)"

text \<open>\<^verbatim>\<open>SNAKE_CASE_RE\<close> and \<^verbatim>\<open>PASCAL_CASE_RE\<close>, as \<^verbatim>\<open>re.match\<close> decides them.\<close>

definition is_lower :: "char \<Rightarrow> bool" where
  "is_lower c \<longleftrightarrow> 97 \<le> (of_char c :: nat) \<and> (of_char c :: nat) \<le> 122"

definition is_upper :: "char \<Rightarrow> bool" where
  "is_upper c \<longleftrightarrow> 65 \<le> (of_char c :: nat) \<and> (of_char c :: nat) \<le> 90"

definition is_digit :: "char \<Rightarrow> bool" where
  "is_digit c \<longleftrightarrow> 48 \<le> (of_char c :: nat) \<and> (of_char c :: nat) \<le> 57"

text \<open>\<^verbatim>\<open>$\<close> matches at the end of the string and just before a newline that ends it.\<close>

definition re_end :: "string \<Rightarrow> bool" where
  "re_end rest \<longleftrightarrow> rest = [] \<or> rest = [CHR 0x0A]"

definition snake_case_match :: "string \<Rightarrow> bool" where
  "snake_case_match nm =
     (case nm of
        [] \<Rightarrow> False
      | c # cs \<Rightarrow> (is_lower c \<or> c = CHR ''_'')
                 \<and> re_end (dropWhile (\<lambda>x. is_lower x \<or> is_digit x \<or> x = CHR ''_'') cs))"

definition pascal_case_match :: "string \<Rightarrow> bool" where
  "pascal_case_match nm =
     (case nm of
        [] \<Rightarrow> False
      | c # cs \<Rightarrow> is_upper c
                 \<and> re_end (dropWhile (\<lambda>x. is_upper x \<or> is_lower x \<or> is_digit x) cs))"

text \<open>
  \<^verbatim>\<open>ast.get_docstring\<close>: the first statement of the body, when it is an expression
  statement whose value is a string constant, cleaned by \<^verbatim>\<open>inspect.cleandoc\<close>.  It
  raises \<^verbatim>\<open>TypeError\<close> on a node that is no module, class or function.
\<close>

definition docstring_of :: "python \<Rightarrow> ast_node \<Rightarrow> string option" where
  "docstring_of py node =
     (case field ''body'' node of
        [] \<Rightarrow> None
      | stmt # _ \<Rightarrow>
          (if kind stmt \<noteq> Expr then None
           else (case field ''value'' stmt of
                   [v] \<Rightarrow> (case kind v of ConstantStr t \<Rightarrow> Some (py_cleandoc py t) | _ \<Rightarrow> None)
                 | _ \<Rightarrow> None)))"

definition can_have_docstring :: "ast_node \<Rightarrow> bool" where
  "can_have_docstring node =
     (case kind node of
        Module \<Rightarrow> True | FunctionDef _ \<Rightarrow> True | AsyncFunctionDef _ \<Rightarrow> True
      | ClassDef _ \<Rightarrow> True | _ \<Rightarrow> False)"

definition get_docstring :: "python \<Rightarrow> ast_node \<Rightarrow> string + string option" where
  "get_docstring py node =
     (if can_have_docstring node then Inr (docstring_of py node)
      else Inl ''TypeError: node can't have docstrings'')"

text \<open>The three lists that the loop of \<^verbatim>\<open>docstrings_and_naming\<close> appends to.\<close>

record naming_state =
  fn_info :: "def_info list"
  cls_info :: "def_info list"
  ns_naming_issues :: "naming_issue list"

text \<open>
  One iteration of \<^verbatim>\<open>for node in getattr(tree, "body", [])\<close>.  On a function or class
  node \<^verbatim>\<open>ast.get_docstring\<close> does not raise, so its value is \<^verbatim>\<open>docstring_of\<close>.
\<close>

definition naming_step :: "python \<Rightarrow> ast_node \<Rightarrow> naming_state \<Rightarrow> naming_state" where
  "naming_step py node st =
     (let fn_case = (\<lambda>nm.
            let has_doc = (docstring_of py node \<noteq> None);
                st = st\<lparr>fn_info := fn_info st @
                          [\<lparr>def_name = nm, def_lineno = lineno node, has_docstring = has_doc\<rparr>]\<rparr>
            in if \<not> (startswith nm ''_'' \<or> (startswith nm ''__'' \<and> endswith nm ''__''))
               then (if \<not> snake_case_match nm
                     then st\<lparr>ns_naming_issues := ns_naming_issues st @
                               [\<lparr>naming_type = ''FunctionNameNotSnakeCase'', naming_name = nm,
                                 naming_lineno = lineno node\<rparr>]\<rparr>
                     else st)
               else st)
      in case kind node of
           FunctionDef nm \<Rightarrow> fn_case nm
         | AsyncFunctionDef nm \<Rightarrow> fn_case nm
         | ClassDef nm \<Rightarrow>
             (let has_doc = (docstring_of py node \<noteq> None);
                  st = st\<lparr>cls_info := cls_info st @
                            [\<lparr>def_name = nm, def_lineno = lineno node, has_docstring = has_doc\<rparr>]\<rparr>
              in if \<not> startswith nm ''_''
                 then (if \<not> pascal_case_match nm
                       then st\<lparr>ns_naming_issues := ns_naming_issues st @
                                 [\<lparr>naming_type = ''ClassNameNotPascalCase'', naming_name = nm,
                                   naming_lineno = lineno node\<rparr>]\<rparr>
                       else st)
                 else st)
         | _ \<Rightarrow> st)"

fun naming_loop :: "python \<Rightarrow> ast_node list \<Rightarrow> naming_state \<Rightarrow> naming_state" where
  "naming_loop py [] st = st"
| "naming_loop py (node # rest) st = naming_loop py rest (naming_step py node st)"

definition docstrings_and_naming :: "python \<Rightarrow> ast_node \<Rightarrow> string + docstrings_naming_report" where
  "docstrings_and_naming py tree =
     (case get_docstring py tree of
        Inl e \<Rightarrow> Inl e
      | Inr module_doc \<Rightarrow>
          (let st = naming_loop py (field ''body'' tree)
                      \<lparr>fn_info = [], cls_info = [], ns_naming_issues = []\<rparr>;
               missing_fn_docs = length (filter (\<lambda>f. \<not> has_docstring f) (fn_info st));
               missing_cls_docs = length (filter (\<lambda>c. \<not> has_docstring c) (cls_info st))
           in Inr \<lparr>module_has_docstring = (module_doc \<noteq> None),
                   module_docstring_length = (case module_doc of None \<Rightarrow> 0 | Some d \<Rightarrow> length d),
                   ds_functions = fn_info st,
                   ds_classes = cls_info st,
                   missing_function_docstrings = missing_fn_docs,
                   missing_class_docstrings = missing_cls_docs,
                   naming_issues = ns_naming_issues st\<rparr>))"

section \<open>Analysis aggregator\<close>

text \<open>
  \<^verbatim>\<open>static_analysis\<close> on the text that \<^verbatim>\<open>read_text\<close> returned.  \<^verbatim>\<open>sorted(..., reverse=True)\<close>
  is stable: entries of equal complexity keep their order.  The \<^verbatim>\<open>except Exception\<close> of
  line 284 is met here by the two calls that raise in this model, \<^verbatim>\<open>ast.parse\<close> and
  \<^verbatim>\<open>ast.get_docstring\<close>.  The recursion limit of the interpreter is not modelled: a tree
  nested deeper than that limit makes \<^verbatim>\<open>cv.visit\<close> raise \<^verbatim>\<open>RecursionError\<close>, which the same
  handler turns into \<^verbatim>\<open>ok: False\<close>, where \<^verbatim>\<open>visit\<close> below returns its entries.
\<close>

definition static_analysis :: "python \<Rightarrow> string \<Rightarrow> string + static_report" where
  "static_analysis py source =
     (case syntax_check py source of
        Inl e \<Rightarrow> Inl e
      | Inr syn \<Rightarrow>
          (let sty = style_check source;
               risky = risky_patterns source;
               comm = comment_stats py source;
               ast_blk =
                 (if syn_ok syn then
                    (case py_parse py source of
                       Inl e \<Rightarrow> AstFailed e
                     | Inr tree \<Rightarrow>
                         (let comps = map (\<lambda>(n, l, c). \<lparr>cx_name = n, cx_lineno = l,
                                                          cx_complexity = c\<rparr>) (visit tree);
                              comps_sorted = sort_key (\<lambda>x. - cx_complexity x) comps
                          in case docstrings_and_naming py tree of
                               Inl e \<Rightarrow> AstFailed e
                             | Inr ds \<Rightarrow> AstOk ds (take 5 comps_sorted) comps_sorted))
                  else AstFailed ''Skipped due to syntax error.'')
           in Inr \<lparr>rep_syntax = syn, rep_style = sty, rep_risky_patterns = risky,
                   rep_comments = comm, rep_ast = ast_blk\<rparr>))"

section \<open>Sandbox test runner\<close>

text \<open>\<^verbatim>\<open>s[-20000:]\<close>, on \<^verbatim>\<open>str\<close> and on \<^verbatim>\<open>bytes\<close>.\<close>

definition tail_chars :: "nat \<Rightarrow> string \<Rightarrow> string" where
  "tail_chars n s = drop (length s - n) s"

definition tail_captured :: "nat \<Rightarrow> captured \<Rightarrow> captured" where
  "tail_captured n c = (case c of Str s \<Rightarrow> Str (tail_chars n s) | Bytes b \<Rightarrow> Bytes (tail_chars n b))"

text \<open>
  \<^verbatim>\<open>a + b\<close> and \<^verbatim>\<open>key in c\<close> on captured output, \<^verbatim>\<open>key\<close> a string: \<^verbatim>\<open>str\<close> and \<^verbatim>\<open>bytes\<close>
  do not concatenate, and a string is not looked for in \<^verbatim>\<open>bytes\<close>; both raise
  \<^verbatim>\<open>TypeError\<close>.
\<close>

definition py_concat :: "captured \<Rightarrow> captured \<Rightarrow> string + captured" where
  "py_concat a b =
     (case (a, b) of
        (Str x, Str y) \<Rightarrow> Inr (Str (x @ y))
      | (Bytes x, Bytes y) \<Rightarrow> Inr (Bytes (x @ y))
      | (Str x, Bytes y) \<Rightarrow> Inl ''TypeError: can only concatenate str (not bytes) to str''
      | (Bytes x, Str y) \<Rightarrow> Inl ''TypeError: can't concat str to bytes'')"

definition py_in :: "string \<Rightarrow> captured \<Rightarrow> string + bool" where
  "py_in key c =
     (case c of
        Str s \<Rightarrow> Inr (contains key s)
      | Bytes b \<Rightarrow> Inl ''TypeError: a bytes-like object is required, not str'')"

text \<open>
  \<^verbatim>\<open>run_basic_unit_test\<close>.  The staging of the file in a temporary directory is inside
  \<^verbatim>\<open>py_run\<close>; an exception of \<^verbatim>\<open>safe_run\<close> goes through to the caller, and so does the
  \<^verbatim>\<open>TypeError\<close> of the retry test
  \<^verbatim>\<open>(not r1.ok) and ("ModuleNotFoundError" in (r1.stderr + r1.stdout))\<close>,
  whose right operand is evaluated only when the first run failed.
\<close>

definition run_basic_unit_test :: "python \<Rightarrow> nat \<Rightarrow> string + test_report" where
  "run_basic_unit_test py timeout_sec =
     (let cmd1 = [py_executable py, ''-I'', ''-m'', ''unittest'', ''discover'', ''-v'']
      in case safe_run py cmd1 timeout_sec of
           Inl e \<Rightarrow> Inl e
         | Inr r1 \<Rightarrow>
             (let pick = (\<lambda>used_cmd rr.
                     \<lparr>test_ok = run_ok rr, test_returncode = run_returncode rr,
                      test_seconds = py_round py (run_seconds rr) 3,
                      test_timed_out = run_timed_out rr, test_command = used_cmd,
                      test_stdout = tail_captured 20000 (run_stdout rr),
                      test_stderr = tail_captured 20000 (run_stderr rr)\<rparr>);
                  retry = (if run_ok r1 then Inr False
                           else case py_concat (run_stderr r1) (run_stdout r1) of
                                  Inl e \<Rightarrow> Inl e
                                | Inr both \<Rightarrow> py_in ''ModuleNotFoundError'' both)
              in case retry of
                   Inl e \<Rightarrow> Inl e
                 | Inr again \<Rightarrow>
                     if again
                     then (let cmd2 = [py_executable py, ''-m'', ''unittest'', ''discover'', ''-v'']
                           in case safe_run py cmd2 timeout_sec of
                                Inl e \<Rightarrow> Inl e
                              | Inr r2 \<Rightarrow> Inr (pick cmd2 r2))
                     else Inr (pick cmd1 r1)))"

section \<open>The verdict engine\<close>

text \<open>
  Every deduction of \<^verbatim>\<open>verdict\<close> has the shape
  \<^verbatim>\<open>if cond: score -= amount; notes.append(note)\<close>
  on the pair of local variables \<^verbatim>\<open>(score, notes)\<close>.
\<close>

definition deduct :: "bool \<Rightarrow> int \<Rightarrow> string \<Rightarrow> int \<times> string list \<Rightarrow> int \<times> string list" where
  "deduct cond amount note st =
     (if cond then (fst st - amount, snd st @ [note]) else st)"

text \<open>Lines 354 to 396 of \<^verbatim>\<open>verdict\<close>: the score and the notes before the clamp.\<close>

definition verdict_deductions :: "static_report \<Rightarrow> test_report option \<Rightarrow> int \<times> string list" where
  "verdict_deductions static_rep test_rep =
     (let st = (100, []);
          st = deduct (\<not> syn_ok (rep_syntax static_rep)) 80
                 ''Syntax error: the file does not compile.'' st;
          style_cnt = counts (rep_style static_rep);
          st = deduct (mixed_indentation style_cnt \<noteq> 0) 10
                 ''Mixed indentation (tabs + spaces).'' st;
          ll = long_lines_gt_100 style_cnt;
          st = deduct (ll \<noteq> 0) (min 10 (int ll div 10 + 1))
                 (str_nat ll @ '' long lines (> 100 chars).'') st;
          risky = flags (rep_risky_patterns static_rep);
          st = deduct (risky \<noteq> []) (min 25 (5 * int (length risky)))
                 (''Risky patterns detected: '' @ str_nat (length risky) @ '' hit(s).'') st;
          st = (case rep_ast static_rep of
                  AstFailed _ \<Rightarrow> st
                | AstOk ds _ _ \<Rightarrow>
                    (let st = deduct (\<not> module_has_docstring ds) 5
                                ''Missing module docstring.'' st;
                         mfd = missing_function_docstrings ds;
                         st = deduct (mfd \<noteq> 0) (min 10 (int mfd))
                                (str_nat mfd @ '' function(s) missing docstrings.'') st;
                         ni = naming_issues ds;
                         st = deduct (ni \<noteq> []) (min 10 (int (length ni)))
                                (''Naming convention issues: '' @ str_nat (length ni) @ '' item(s).'') st
                     in st));
          st = (case test_rep of
                  None \<Rightarrow> st
                | Some t \<Rightarrow>
                    (let st = deduct (\<not> test_ok t) 30 ''Unit test failed (or crashed).'' st;
                         st = deduct (test_timed_out t) 20 ''Unit test timed out.'' st
                     in st))
      in st)"

definition level_of :: "int \<Rightarrow> string" where
  "level_of s =
     (if s \<ge> 90 then ''Excellent'' else if s \<ge> 75 then ''Good''
      else if s \<ge> 55 then ''Fair'' else ''Poor'')"

text \<open>Lines 398 to 400: clamp, level, result.\<close>

definition verdict :: "static_report \<Rightarrow> test_report option \<Rightarrow> verdict_result" where
  "verdict static_rep test_rep =
     (let (sc, ns) = verdict_deductions static_rep test_rep;
          sc = max 0 (min 100 sc)
      in \<lparr>v_score = sc, v_level = level_of sc, v_notes = ns\<rparr>)"

section \<open>The analysis run and the summary of the report\<close>

text \<open>
  The body of \<^verbatim>\<open>ProgramTesterApp._run_checks_thread\<close> up to the call of the renderer, on the
  text of the selected file.  An exception ends the run without a report (the source
  logs it as an unexpected error).
\<close>

definition run_checks ::
  "python \<Rightarrow> string \<Rightarrow> string + (static_report \<times> test_report option \<times> verdict_result)" where
  "run_checks py source =
     (case static_analysis py source of
        Inl e \<Rightarrow> Inl e
      | Inr static_rep \<Rightarrow>
          (if syn_ok (rep_syntax static_rep)
           then (case run_basic_unit_test py 20 of
                   Inl e \<Rightarrow> Inl e
                 | Inr t \<Rightarrow> Inr (static_rep, Some t, verdict static_rep (Some t)))
           else Inr (static_rep, None, verdict static_rep None)))"

text \<open>The first lines that \<^verbatim>\<open>_render_report\<close> logs: the summary with the notes.\<close>

definition render_summary :: "verdict_result \<Rightarrow> string list" where
  "render_summary v =
     [''=== Summary ==='' @ [CHR 0x0A],
      ''Score: '' @ str_int (v_score v) @ ''   Level: '' @ v_level v @ [CHR 0x0A]]
     @ (if v_notes v \<noteq> []
        then (''Notes:'' @ [CHR 0x0A]) # map (\<lambda>n. ''  - '' @ n @ [CHR 0x0A]) (v_notes v)
        else [''Notes:'' @ [CHR 0x0A] @ ''  - No major issues detected.'' @ [CHR 0x0A]])"

section \<open>Example inputs\<close>

text \<open>
  A small well-formed module, the syntax tree \<^verbatim>\<open>ast.parse\<close> gives for it, and a runtime
  that knows this module, rejects a text that opens with ten thousand or more minus
  signs with \<^verbatim>\<open>MemoryError\<close> (the parser's stack overflows) and any other text with a
  \<^verbatim>\<open>SyntaxError\<close>.  Its \<^verbatim>\<open>round\<close> leaves its argument as it is, which is what \<^verbatim>\<open>round\<close> does
  on the values that the examples pass (0, 1/4 and 20).  The module:
  \<^verbatim>\<open>
  """Doc."""
  def add_one(x):
      """Add one."""
      return x + 1
  \<close>
\<close>

definition triple_quote :: string where
  "triple_quote = replicate 3 (CHR 0x22)"

definition demo_source :: string where
  "demo_source =
     triple_quote @ ''Doc.'' @ triple_quote @ [CHR 0x0A] @
     ''def add_one(x):'' @ [CHR 0x0A] @
     ''    '' @ triple_quote @ ''Add one.'' @ triple_quote @ [CHR 0x0A] @
     ''    return x + 1'' @ [CHR 0x0A]"

definition demo_function :: ast_node where
  "demo_function =
     Node (FunctionDef ''add_one'') 2
       [(''args'', [Node (OtherNode ''arguments'') 2 [(''args'', [Node (OtherNode ''arg'') 2 []])]]),
        (''body'',
           [Node Expr 3 [(''value'', [Node (ConstantStr ''Add one.'') 3 []])],
            Node (OtherNode ''Return'') 4
              [(''value'', [Node (OtherNode ''BinOp'') 4
                  [(''left'', [Node (OtherNode ''Name'') 4 [(''ctx'', [Node (OtherNode ''Load'') 4 []])]]),
                   (''op'', [Node (OtherNode ''Add'') 4 []]),
                   (''right'', [Node (OtherNode ''Constant'') 4 []])]])]])]"

definition demo_tree :: ast_node where
  "demo_tree =
     Node Module 0
       [(''body'',
           [Node Expr 1 [(''value'', [Node (ConstantStr ''Doc.'') 1 []])],
            demo_function])]"

definition broken_source :: string where
  "broken_source = ''def f(:'' @ [CHR 0x0A]"

definition demo_python :: python where
  "demo_python =
     \<lparr>py_compile = (\<lambda>s. if 10000 \<le> length (takeWhile (\<lambda>c. c = CHR ''-'') s)
                         then RaisesOther ''MemoryError''
                         else if s = demo_source then Compiled
                         else RaisesSyntaxError ''invalid syntax (<uploaded>, line 1)''
                                (Some 1) (Some 7) (Some s)),
      py_parse = (\<lambda>s. if s = demo_source then Inr demo_tree else Inl ''invalid syntax''),
      py_comment_tokens = (\<lambda>s. Some []),
      py_cleandoc = (\<lambda>d. d),
      py_run = (\<lambda>cmd t. Completed 0 [] ''OK'' (1 / 4)),
      py_executable = ''python'',
      py_round = (\<lambda>x ndigits. x)\<rparr>"

definition demo_counts :: style_counts where
  "demo_counts =
     \<lparr>total_lines = 4, long_lines_gt_100 = 0, trailing_whitespace_lines = 0,
      tab_char_lines = 0, mixed_indentation = 0\<rparr>"

definition demo_ds :: docstrings_naming_report where
  "demo_ds =
     \<lparr>module_has_docstring = True, module_docstring_length = 4,
      ds_functions = [\<lparr>def_name = ''add_one'', def_lineno = 2, has_docstring = True\<rparr>],
      ds_classes = [], missing_function_docstrings = 0, missing_class_docstrings = 0,
      naming_issues = []\<rparr>"

definition demo_entry :: complexity_entry where
  "demo_entry = \<lparr>cx_name = ''add_one'', cx_lineno = 2, cx_complexity = 1\<rparr>"

definition demo_report :: static_report where
  "demo_report =
     \<lparr>rep_syntax = \<lparr>syn_ok = True, syn_error = None\<rparr>,
      rep_style = \<lparr>counts = demo_counts, issues = []\<rparr>,
      rep_risky_patterns = \<lparr>flags = []\<rparr>,
      rep_comments = \<lparr>comment_lines = 0, comment_total_lines = 4, comment_density = 0,
                       sample_comments = []\<rparr>,
      rep_ast = AstOk demo_ds [demo_entry] [demo_entry]\<rparr>"

definition demo_test_report :: test_report where
  "demo_test_report =
     \<lparr>test_ok = True, test_returncode = 0, test_seconds = 1 / 4, test_timed_out = False,
      test_command = [''python'', ''-I'', ''-m'', ''unittest'', ''discover'', ''-v''],
      test_stdout = Str [], test_stderr = Str ''OK''\<rparr>"

text \<open>
  A report that differs from \<^verbatim>\<open>demo_report\<close> in what the verdict does not read: comment
  statistics, trailing white space and tab counters, the issue list, class docstrings,
  the content of the naming and risk entries, and the complexity entries.
\<close>

definition noisy_report :: static_report where
  "noisy_report =
     demo_report
       \<lparr>rep_style := \<lparr>counts = demo_counts\<lparr>total_lines := 90, trailing_whitespace_lines := 7,
                                            tab_char_lines := 3\<rparr>,
                       issues = [\<lparr>issue_line = Some 5, issue_type = ''TrailingWhitespace'',
                                  issue_detail = ''Trailing spaces/tabs''\<rparr>]\<rparr>,
        rep_comments := \<lparr>comment_lines = 45, comment_total_lines = 90, comment_density = 1 / 2,
                          sample_comments = [''todo'']\<rparr>,
        rep_ast := AstOk (demo_ds\<lparr>missing_class_docstrings := 6, module_docstring_length := 300\<rparr>)
                     [demo_entry\<lparr>cx_complexity := 40\<rparr>] [demo_entry\<lparr>cx_complexity := 40\<rparr>]\<rparr>"

definition noisy_test_report :: test_report where
  "noisy_test_report =
     demo_test_report\<lparr>test_seconds := 19, test_stdout := Str ''hello'', test_command := []\<rparr>"

text \<open>A report with every deduction of the static part triggered.\<close>

definition poor_report :: static_report where
  "poor_report =
     demo_report
       \<lparr>rep_syntax := \<lparr>syn_ok = False, syn_error = None\<rparr>,
        rep_style := \<lparr>counts = demo_counts\<lparr>long_lines_gt_100 := 15, mixed_indentation := 1\<rparr>,
                       issues = []\<rparr>,
        rep_risky_patterns := \<lparr>flags = [\<lparr>flag_pattern = ''os.system'',
                                           flag_detail = ''Shell execution via os.system''\<rparr>]\<rparr>,
        rep_ast := AstFailed ''Skipped due to syntax error.''\<rparr>"

text \<open>The report and the verdict of the broken text \<^verbatim>\<open>def f(:\<close>.\<close>

definition broken_report :: static_report where
  "broken_report =
     \<lparr>rep_syntax =
        \<lparr>syn_ok = False,
         syn_error = Some \<lparr>err_type = ''SyntaxError'',
                           err_msg = ''invalid syntax (<uploaded>, line 1)'',
                           err_lineno = Some 1, err_offset = Some 7, err_text = ''def f(:''\<rparr>\<rparr>,
      rep_style = \<lparr>counts = demo_counts\<lparr>total_lines := 1\<rparr>, issues = []\<rparr>,
      rep_risky_patterns = \<lparr>flags = []\<rparr>,
      rep_comments = \<lparr>comment_lines = 0, comment_total_lines = 1, comment_density = 0,
                       sample_comments = []\<rparr>,
      rep_ast = AstFailed ''Skipped due to syntax error.''\<rparr>"

definition broken_verdict :: verdict_result where
  "broken_verdict =
     \<lparr>v_score = 20, v_level = ''Poor'',
      v_notes = [''Syntax error: the file does not compile.'']\<rparr>"

definition demo_verdict :: verdict_result where
  "demo_verdict = \<lparr>v_score = 100, v_level = ''Excellent'', v_notes = []\<rparr>"

text \<open>
  The text \<^verbatim>\<open>-\<close> \<open>\<dots>\<close> \<^verbatim>\<open>-1\<close> with ten thousand minus signs: a well-formed expression,
  nested too deep for the parser.
\<close>

definition deep_source :: string where
  "deep_source = replicate 10000 (CHR ''-'') @ ''1'' @ [CHR 0x0A]"

text \<open>
  Two runtimes on which every child process runs into the timeout: on the first nothing
  was captured before the timeout, on the second (POSIX) the test runner had written the
  name of the running test to \<^verbatim>\<open>stderr\<close>, which the exception carries as \<^verbatim>\<open>bytes\<close>.
\<close>

definition hanging_python :: python where
  "hanging_python = demo_python\<lparr>py_run := (\<lambda>cmd t. TimeoutExpired None None (of_nat t))\<rparr>"

definition posix_hanging_python :: python where
  "posix_hanging_python =
     demo_python\<lparr>py_run := (\<lambda>cmd t.
        TimeoutExpired None (Some (Bytes ''test_has_public_names (test_basic.BasicTests) ... ''))
          (of_nat t))\<rparr>"

definition timeout_run :: RunResult where
  "timeout_run =
     \<lparr>run_ok = False, run_returncode = 124, run_stdout = Str [],
      run_stderr = Str ''Process timed out.'', run_seconds = 20, run_timed_out = True\<rparr>"

definition timeout_test_report :: test_report where
  "timeout_test_report =
     \<lparr>test_ok = False, test_returncode = 124, test_seconds = 20, test_timed_out = True,
      test_command = [''python'', ''-I'', ''-m'', ''unittest'', ''discover'', ''-v''],
      test_stdout = Str [], test_stderr = Str ''Process timed out.''\<rparr>"

text \<open>
  The report of a file that compiles and draws 60 points of static deductions: mixed
  indentation, five risk patterns, no module docstring, ten functions without docstring
  and ten naming issues.
\<close>

definition heavy_report :: static_report where
  "heavy_report =
     demo_report
       \<lparr>rep_style := \<lparr>counts = demo_counts\<lparr>total_lines := 21, mixed_indentation := 1\<rparr>,
                       issues = []\<rparr>,
        rep_risky_patterns :=
          \<lparr>flags = map (\<lambda>(key, m). \<lparr>flag_pattern = key, flag_detail = m\<rparr>) (take 5 patterns)\<rparr>,
        rep_ast :=
          AstOk (demo_ds\<lparr>module_has_docstring := False, module_docstring_length := 0,
                         missing_function_docstrings := 10,
                         naming_issues :=
                           map (\<lambda>i. \<lparr>naming_type = ''FunctionNameNotSnakeCase'',
                                      naming_name = ''F'' @ str_nat i,
                                      naming_lineno = 2 * int i + 2\<rparr>) [0 ..< 10]\<rparr>)
            [] []\<rparr>"

text \<open>A captured output that is not a non-empty \<^verbatim>\<open>bytes\<close> value.\<close>

definition textual :: "captured option \<Rightarrow> bool" where
  "textual x = (case x of Some (Bytes b) \<Rightarrow> b = [] | _ \<Rightarrow> True)"

section \<open>Notions used in the statements about naming\<close>

text \<open>
  The function-name check on one top-level node, as a value: the issue that the node
  gives rise to, if any.
\<close>

definition flagged_function :: "ast_node \<Rightarrow> naming_issue option" where
  "flagged_function node =
     (let check = (\<lambda>nm. if \<not> startswith nm ''_'' \<and> \<not> snake_case_match nm
                         then Some \<lparr>naming_type = ''FunctionNameNotSnakeCase'', naming_name = nm,
                                    naming_lineno = lineno node\<rparr>
                         else None)
      in case kind node of
           FunctionDef nm \<Rightarrow> check nm
         | AsyncFunctionDef nm \<Rightarrow> check nm
         | _ \<Rightarrow> None)"

definition is_function_issue :: "naming_issue \<Rightarrow> bool" where
  "is_function_issue i \<longleftrightarrow> naming_type i = ''FunctionNameNotSnakeCase''"

text \<open>A definition whose body is \<^verbatim>\<open>pass\<close>.\<close>

definition simple_def :: "node_kind \<Rightarrow> int \<Rightarrow> ast_node" where
  "simple_def k l =
     Node k l [(''args'', [Node (OtherNode ''arguments'') l []]),
               (''body'', [Node (OtherNode ''Pass'') (l + 1) []])]"

text \<open>
  \<^verbatim>\<open>
  class Widget:
      def BadName(self): pass
  \<close>
\<close>

definition method_tree :: ast_node where
  "method_tree =
     Node Module 0
       [(''body'',
           [Node (ClassDef ''Widget'') 1
              [(''body'', [simple_def (FunctionDef ''BadName'') 2])]])]"

definition method_ds :: docstrings_naming_report where
  "method_ds =
     \<lparr>module_has_docstring = False, module_docstring_length = 0, ds_functions = [],
      ds_classes = [\<lparr>def_name = ''Widget'', def_lineno = 1, has_docstring = False\<rparr>],
      missing_function_docstrings = 0, missing_class_docstrings = 1, naming_issues = []\<rparr>"

text \<open>
  A module with the top-level functions \<^verbatim>\<open>MyFunction\<close>, \<^verbatim>\<open>_Helper\<close>, \<^verbatim>\<open>add_one\<close>,
  \<^verbatim>\<open>__Init__\<close>, the top-level coroutine \<^verbatim>\<open>FetchAll\<close>, and the class \<^verbatim>\<open>Widget\<close> above.
\<close>

definition naming_tree :: ast_node where
  "naming_tree =
     Node Module 0
       [(''body'',
           [simple_def (FunctionDef ''MyFunction'') 1,
            simple_def (FunctionDef ''_Helper'') 3,
            simple_def (FunctionDef ''add_one'') 5,
            simple_def (AsyncFunctionDef ''FetchAll'') 7,
            simple_def (FunctionDef ''__Init__'') 9,
            Node (ClassDef ''Widget'') 11
              [(''body'', [simple_def (FunctionDef ''BadName'') 12])]])]"

definition naming_tree_issues :: "naming_issue list" where
  "naming_tree_issues =
     [\<lparr>naming_type = ''FunctionNameNotSnakeCase'', naming_name = ''MyFunction'',
       naming_lineno = 1\<rparr>,
      \<lparr>naming_type = ''FunctionNameNotSnakeCase'', naming_name = ''FetchAll'',
       naming_lineno = 7\<rparr>]"


section \<open>Notions used in the statements about complexity\<close>

text \<open>All nodes of the subtree of a node, the node first.\<close>

fun subtree :: "ast_node \<Rightarrow> ast_node list" where
  "subtree (Node k l fs) = Node k l fs # concat (map (\<lambda>f. concat (map subtree (snd f))) fs)"

text \<open>
  The count in the words of the specification: 1 for each conditional branch, loop,
  exception-handling block, exception clause and resource-scoping block, \<open>max 1 (n - 1)\<close>
  for a short-circuit boolean combination of \<open>n\<close> operands, 1 for a pattern-match
  construct.  Python's loops are \<^verbatim>\<open>for\<close>, \<^verbatim>\<open>async for\<close> and \<^verbatim>\<open>while\<close>; its exception-handling
  blocks are \<^verbatim>\<open>try\<close> with \<^verbatim>\<open>except\<close> and \<^verbatim>\<open>try\<close> with \<^verbatim>\<open>except*\<close>.
\<close>

definition spec_weight :: "ast_node \<Rightarrow> int" where
  "spec_weight n =
     (if kind n = If_stmt then 1
      else if kind n \<in> {For, AsyncFor, While} then 1
      else if kind n \<in> {Try, TryStar} then 1
      else if kind n = ExceptHandler then 1
      else if kind n \<in> {With, AsyncWith} then 1
      else if kind n = BoolOp then max 1 (int (length (field ''values'' n)) - 1)
      else if kind n = Match then 1
      else 0)"

definition spec_complexity :: "ast_node \<Rightarrow> int" where
  "spec_complexity fn = 1 + sum_list (map spec_weight (subtree fn))"

text \<open>The two node classes of that count which \<^verbatim>\<open>_complexity_of\<close> does not test for.\<close>

definition missed_kind :: "ast_node \<Rightarrow> bool" where
  "missed_kind n \<longleftrightarrow> kind n = AsyncFor \<or> kind n = TryStar"

text \<open>
  \<^verbatim>\<open>
  async def pump(xs):
      async for x in xs:
          pass
  \<close>
\<close>

definition async_for_function :: ast_node where
  "async_for_function =
     Node (AsyncFunctionDef ''pump'') 1
       [(''args'', [Node (OtherNode ''arguments'') 1 [(''args'', [Node (OtherNode ''arg'') 1 []])]]),
        (''body'',
           [Node AsyncFor 2
              [(''target'', [Node (OtherNode ''Name'') 2 []]),
               (''iter'', [Node (OtherNode ''Name'') 2 []]),
               (''body'', [Node (OtherNode ''Pass'') 3 []])]])]"


section \<open>Notions used in the statements about style\<close>

text \<open>
  The two per-line tests of \<^verbatim>\<open>style_check\<close> that emit an issue, the issues one iteration
  appends, and the issues of the whole loop.
\<close>

definition is_long :: "string \<Rightarrow> bool" where
  "is_long line \<longleftrightarrow> length (rstrip [CHR 0x0A] line) > 100"

definition has_trailing :: "string \<Rightarrow> bool" where
  "has_trailing line \<longleftrightarrow>
     rstrip [CHR 0x0A] line \<noteq> rstrip [CHR 0x20, CHR 0x09] (rstrip [CHR 0x0A] line)"

definition line_issues :: "nat \<Rightarrow> string \<Rightarrow> style_issue list" where
  "line_issues i line =
     (if is_long line
      then [\<lparr>issue_line = Some i, issue_type = ''LongLine'',
             issue_detail = ''Length='' @ str_nat (length (rstrip [CHR 0x0A] line)) @ '' > 100''\<rparr>]
      else [])
     @ (if has_trailing line
        then [\<lparr>issue_line = Some i, issue_type = ''TrailingWhitespace'',
               issue_detail = ''Trailing spaces/tabs''\<rparr>]
        else [])"

fun loop_issues :: "nat \<Rightarrow> string list \<Rightarrow> style_issue list" where
  "loop_issues i [] = []"
| "loop_issues i (line # rest) = line_issues i line @ loop_issues (Suc i) rest"

text \<open>The whole-file issue, and the two facts about a text that set the flag.\<close>

definition mixed_issue :: style_issue where
  "mixed_issue = \<lparr>issue_line = None, issue_type = ''MixedIndentation'',
                  issue_detail = ''Both tabs and spaces used for indentation''\<rparr>"

definition tab_indented :: "string \<Rightarrow> bool" where
  "tab_indented source \<longleftrightarrow> (\<exists>l \<in> set (splitlines_keepends source). startswith l [CHR 0x09])"

definition space_indented :: "string \<Rightarrow> bool" where
  "space_indented source \<longleftrightarrow> (\<exists>l \<in> set (splitlines_keepends source). startswith l [CHR 0x20])"

text \<open>
  Two hundred lines that are a single space each (a trailing-white-space issue per line),
  then a line that starts with a tab; and a two-line text with one line of each kind.
\<close>

definition capped_source :: string where
  "capped_source = concat (replicate 200 [CHR 0x20, CHR 0x0A]) @ [CHR 0x09, CHR ''x'']"

definition mixed_source :: string where
  "mixed_source = '' a'' @ [CHR 0x0A] @ [CHR 0x09] @ ''b'' @ [CHR 0x0A]"


section \<open>Properties of the verdict engine\<close>

definition notes_inv :: "int \<times> string list \<Rightarrow> bool" where
  "notes_inv st \<longleftrightarrow> fst st + int (length (snd st)) \<le> 100 \<and> (snd st = [] \<longrightarrow> fst st = 100)"

definition ast_ds :: "ast_block \<Rightarrow> docstrings_naming_report option" where
  "ast_ds a = (case a of AstFailed _ \<Rightarrow> None | AstOk ds _ _ \<Rightarrow> Some ds)"

lemma notes_inv_init: "notes_inv (100, [])"
  by (simp add: notes_inv_def)

lemma notes_inv_deduct:
  "(c \<Longrightarrow> 1 \<le> d) \<Longrightarrow> notes_inv st \<Longrightarrow> notes_inv (deduct c d n st)"
  by (auto simp: notes_inv_def deduct_def)

lemma notes_inv_full: "notes_inv st \<Longrightarrow> fst st = 100 \<longleftrightarrow> snd st = []"
  by (cases "snd st") (auto simp: notes_inv_def)

lemma long_line_amount: "1 \<le> min 10 (int ll div 10 + 1)"
  by simp

lemma risky_amount: "risky \<noteq> [] \<Longrightarrow> 1 \<le> min 25 (5 * int (length risky))"
  by (cases risky) simp_all

lemma mfd_amount: "mfd \<noteq> 0 \<Longrightarrow> 1 \<le> min 10 (int mfd)"
  by simp

lemma naming_amount: "ni \<noteq> [] \<Longrightarrow> 1 \<le> min 10 (int (length ni))"
  by (cases ni) simp_all

lemmas deduction_amounts = long_line_amount risky_amount mfd_amount naming_amount

lemma notes_inv_verdict_deductions: "notes_inv (verdict_deductions sr tr)"
  unfolding verdict_deductions_def Let_def
  by (cases "rep_ast sr"; cases tr; simp only: ast_block.case option.case)
     (intro notes_inv_deduct notes_inv_init deduction_amounts; simp)+

lemma v_score_verdict:
  "v_score (verdict sr tr) = max 0 (min 100 (fst (verdict_deductions sr tr)))"
  by (simp add: verdict_def Let_def split: prod.split)

lemma v_level_verdict: "v_level (verdict sr tr) = level_of (v_score (verdict sr tr))"
  by (simp add: verdict_def Let_def split: prod.split)

lemma v_notes_verdict: "v_notes (verdict sr tr) = snd (verdict_deductions sr tr)"
  by (simp add: verdict_def Let_def split: prod.split)

text \<open>
  Claim C1.  For every static report and every optional test report, the score that
  \<^verbatim>\<open>verdict\<close> returns lies between 0 and 100, and the level is the function of that score
  given by the thresholds: at least 90 is Excellent, at least 75 is Good, at least 55 is
  Fair, anything lower is Poor.
\<close>

theorem verdict_score_clamped_level:
  "0 \<le> v_score (verdict sr tr) \<and> v_score (verdict sr tr) \<le> 100 \<and>
   v_level (verdict sr tr) =
     (if v_score (verdict sr tr) \<ge> 90 then ''Excellent''
      else if v_score (verdict sr tr) \<ge> 75 then ''Good''
      else if v_score (verdict sr tr) \<ge> 55 then ''Fair'' else ''Poor'')"
  unfolding v_level_verdict level_of_def by (simp add: v_score_verdict)

theorem verdict_score_clamped_level_witness:
  "v_score (verdict poor_report None) = 3 \<and> v_level (verdict poor_report None) = ''Poor''"
proof -
  have sc: "v_score (verdict poor_report None) = 3"
    by code_simp
  from verdict_score_clamped_level [of poor_report None]
  have "v_level (verdict poor_report None) = ''Poor''"
    unfolding sc by simp
  with sc show ?thesis
    by simp
qed

text \<open>
  Claim C9.  The score of \<^verbatim>\<open>verdict\<close> is 100 exactly when its list of notes is empty.
  Every triggered condition takes at least 1 from the score before the clamp and appends
  one note, so that score plus the number of notes never exceeds 100; the notes returned
  are the notes of the deductions, unchanged by the clamp.
\<close>

theorem verdict_full_score_iff_no_notes:
  "(v_score (verdict sr tr) = 100 \<longleftrightarrow> v_notes (verdict sr tr) = []) \<and>
   fst (verdict_deductions sr tr) + int (length (v_notes (verdict sr tr))) \<le> 100 \<and>
   v_notes (verdict sr tr) = snd (verdict_deductions sr tr)"
proof -
  let ?st = "verdict_deductions sr tr"
  have inv: "notes_inv ?st"
    by (rule notes_inv_verdict_deductions)
  then have bound: "fst ?st + int (length (snd ?st)) \<le> 100"
    by (simp add: notes_inv_def)
  then have le: "fst ?st \<le> 100"
    by linarith
  have "v_score (verdict sr tr) = 100 \<longleftrightarrow> fst ?st = 100"
    using le by (simp add: v_score_verdict max_def min_def)
  also have "\<dots> \<longleftrightarrow> snd ?st = []"
    using inv by (rule notes_inv_full)
  finally show ?thesis
    using bound by (simp add: v_notes_verdict)
qed

theorem verdict_full_score_iff_no_notes_witness:
  "v_notes (verdict demo_report (Some demo_test_report)) = [] \<and>
   v_score (verdict demo_report (Some demo_test_report)) = 100 \<and>
   length (v_notes (verdict poor_report None)) = 4 \<and>
   v_score (verdict poor_report None) \<noteq> 100"
proof -
  have n1: "v_notes (verdict demo_report (Some demo_test_report)) = []"
    by code_simp
  have n2: "length (v_notes (verdict poor_report None)) = 4"
    by code_simp
  from n2 have n3: "v_notes (verdict poor_report None) \<noteq> []"
    by auto
  from verdict_full_score_iff_no_notes [of demo_report "Some demo_test_report"] n1
  have s1: "v_score (verdict demo_report (Some demo_test_report)) = 100"
    by simp
  from verdict_full_score_iff_no_notes [of poor_report None] n3
  have s2: "v_score (verdict poor_report None) \<noteq> 100"
    by simp
  from n1 n2 s1 s2 show ?thesis
    by simp
qed

text \<open>
  Claim C10.  Two inputs of \<^verbatim>\<open>verdict\<close> that agree on the syntax flag, on the
  mixed-indentation and long-line counters, on the number of risk flags, on the flag of
  the AST block with its module-docstring presence, its count of functions without
  docstring and its number of naming issues, and on the presence, the ok flag and the
  timed-out flag of the test report, get the same score, level and notes.  Comment
  density, trailing-white-space and tab counters, class docstrings and complexity entries
  are among the fields left free.
\<close>

theorem verdict_reads_only_scored_fields:
  assumes "syn_ok (rep_syntax a) = syn_ok (rep_syntax b)"
    and "mixed_indentation (counts (rep_style a)) = mixed_indentation (counts (rep_style b))"
    and "long_lines_gt_100 (counts (rep_style a)) = long_lines_gt_100 (counts (rep_style b))"
    and "length (flags (rep_risky_patterns a)) = length (flags (rep_risky_patterns b))"
    and "ast_ok (rep_ast a) = ast_ok (rep_ast b)"
    and "map_option module_has_docstring (ast_ds (rep_ast a))
         = map_option module_has_docstring (ast_ds (rep_ast b))"
    and "map_option missing_function_docstrings (ast_ds (rep_ast a))
         = map_option missing_function_docstrings (ast_ds (rep_ast b))"
    and "map_option (length \<circ> naming_issues) (ast_ds (rep_ast a))
         = map_option (length \<circ> naming_issues) (ast_ds (rep_ast b))"
    and "(ta = None) = (tb = None)"
    and "map_option test_ok ta = map_option test_ok tb"
    and "map_option test_timed_out ta = map_option test_timed_out tb"
  shows "verdict a ta = verdict b tb"
proof -
  have nil_len: "(xs = []) = (length xs = 0)" for xs :: "'x list"
    by simp
  have "verdict_deductions a ta = verdict_deductions b tb"
  proof (cases "rep_ast a")
    case fa: (AstFailed ea)
    then obtain eb where fb: "rep_ast b = AstFailed eb"
      using assms(5) by (cases "rep_ast b") simp_all
    show ?thesis
    proof (cases ta)
      case None
      then have "tb = None" using assms(9) by simp
      with None fa fb assms(1-4) show ?thesis
        unfolding verdict_deductions_def Let_def nil_len by simp
    next
      case (Some x)
      then obtain y where "tb = Some y" using assms(9) by (cases tb) simp_all
      with Some fa fb assms(1-4,10,11) show ?thesis
        unfolding verdict_deductions_def Let_def nil_len by simp
    qed
  next
    case oa: (AstOk da ta5 tall)
    then obtain db tb5 tbll where ob: "rep_ast b = AstOk db tb5 tbll"
      using assms(5) by (cases "rep_ast b") simp_all
    from oa ob assms(6-8) have ds: "module_has_docstring da = module_has_docstring db"
      "missing_function_docstrings da = missing_function_docstrings db"
      "length (naming_issues da) = length (naming_issues db)"
      by (simp_all add: ast_ds_def)
    show ?thesis
    proof (cases ta)
      case None
      then have "tb = None" using assms(9) by simp
      with None oa ob ds assms(1-4) show ?thesis
        unfolding verdict_deductions_def Let_def nil_len by simp
    next
      case (Some x)
      then obtain y where "tb = Some y" using assms(9) by (cases tb) simp_all
      with Some oa ob ds assms(1-4,10,11) show ?thesis
        unfolding verdict_deductions_def Let_def nil_len by simp
    qed
  qed
  then show ?thesis
    by (simp add: verdict_def)
qed

theorem verdict_reads_only_scored_fields_witness:
  "noisy_report \<noteq> demo_report \<and> noisy_test_report \<noteq> demo_test_report \<and>
   verdict noisy_report (Some noisy_test_report) = verdict demo_report (Some demo_test_report)"
proof -
  have d1: "noisy_report \<noteq> demo_report"
    by code_simp
  have d2: "noisy_test_report \<noteq> demo_test_report"
    by code_simp
  have "verdict noisy_report (Some noisy_test_report) = verdict demo_report (Some demo_test_report)"
    by (rule verdict_reads_only_scored_fields) code_simp+
  with d1 d2 show ?thesis
    by simp
qed

section \<open>Properties of the syntax validator\<close>

text \<open>What \<^verbatim>\<open>syntax_check\<close> returns for each outcome of \<^verbatim>\<open>compile\<close>.\<close>

lemma syntax_check_cases:
  "(py_compile py source = Compiled \<longrightarrow>
      syntax_check py source = Inr \<lparr>syn_ok = True, syn_error = None\<rparr>) \<and>
   (\<forall>m l off txt. py_compile py source = RaisesSyntaxError m l off txt \<longrightarrow>
      (\<exists>e. syntax_check py source = Inr \<lparr>syn_ok = False, syn_error = Some e\<rparr>
           \<and> err_type e = ''SyntaxError'' \<and> err_msg e = m \<and> err_lineno e = l
           \<and> err_offset e = off \<and> err_text e = rstrip [CHR 0x0A] (or_else txt []))) \<and>
   (\<forall>x. py_compile py source = RaisesOther x \<longrightarrow> syntax_check py source = Inl x)"
  by (simp add: syntax_check_def)

lemma deep_source_minus_run:
  "takeWhile (\<lambda>c. c = CHR ''-'') deep_source = replicate 10000 (CHR ''-'')"
proof -
  have "takeWhile (\<lambda>c. c = CHR ''-'') (replicate 10000 (CHR ''-'') @ ''1'' @ [CHR 0x0A])
        = replicate 10000 (CHR ''-'') @ takeWhile (\<lambda>c. c = CHR ''-'') (''1'' @ [CHR 0x0A])"
    by (rule takeWhile_append2) simp
  then show ?thesis
    by (simp add: deep_source_def)
qed

text \<open>
  Claim C3 at a text that \<^verbatim>\<open>compile\<close> rejects with \<^verbatim>\<open>MemoryError\<close> (ten thousand minus
  signs before a digit): the claim has \<^verbatim>\<open>syntax_check\<close> return \<^verbatim>\<open>ok: False\<close> with an error
  record and never raise, but its handler is \<^verbatim>\<open>except SyntaxError\<close> alone, the exception
  leaves \<^verbatim>\<open>syntax_check\<close> and \<^verbatim>\<open>static_analysis\<close>, and the analysis run ends without a
  report.
\<close>

theorem memory_error_leaves_syntax_check:
  "py_compile demo_python deep_source = RaisesOther ''MemoryError'' \<and>
   syntax_check demo_python deep_source = Inl ''MemoryError'' \<and>
   static_analysis demo_python deep_source = Inl ''MemoryError'' \<and>
   run_checks demo_python deep_source = Inl ''MemoryError''"
proof -
  have c: "py_compile demo_python deep_source = RaisesOther ''MemoryError''"
    by (simp add: demo_python_def deep_source_minus_run)
  then have s: "syntax_check demo_python deep_source = Inl ''MemoryError''"
    by (simp add: syntax_check_def)
  then have a: "static_analysis demo_python deep_source = Inl ''MemoryError''"
    by (simp add: static_analysis_def)
  then have "run_checks demo_python deep_source = Inl ''MemoryError''"
    by (simp add: run_checks_def)
  with c s a show ?thesis
    by simp
qed

section \<open>Properties of the sandbox runner\<close>

lemma deduct_True: "deduct True d n st = (fst st - d, snd st @ [n])"
  by (simp add: deduct_def)

lemma verdict_deductions_Some:
  "verdict_deductions sr (Some t) =
     deduct (test_timed_out t) 20 ''Unit test timed out.''
       (deduct (\<not> test_ok t) 30 ''Unit test failed (or crashed).'' (verdict_deductions sr None))"
  by (simp add: verdict_deductions_def Let_def)

lemma timeout_deductions:
  assumes "\<not> test_ok t" and "test_timed_out t"
  shows "verdict_deductions sr (Some t) =
           (fst (verdict_deductions sr None) - 50,
            snd (verdict_deductions sr None)
              @ [''Unit test failed (or crashed).'', ''Unit test timed out.''])"
  using assms by (simp add: verdict_deductions_Some deduct_True)

lemma deductions_at_most_100: "fst (verdict_deductions sr tr) \<le> 100"
  using notes_inv_verdict_deductions [of sr tr] by (simp add: notes_inv_def)

lemma captured_or_textual: "textual x \<Longrightarrow> \<exists>s. captured_or x d = Str s"
  by (auto simp: textual_def captured_or_def split: option.splits captured.splits)

text \<open>On every timeout \<^verbatim>\<open>safe_run\<close> returns a result, whatever was captured.\<close>

lemma safe_run_timeout:
  assumes "py_run py cmd t = TimeoutExpired out err dt"
  shows "safe_run py cmd t =
           Inr \<lparr>run_ok = False, run_returncode = 124, run_stdout = captured_or out [],
                run_stderr = captured_or err ''Process timed out.'', run_seconds = dt,
                run_timed_out = True\<rparr>"
  using assms by (simp add: safe_run_def)

lemma safe_run_textual_timeout:
  assumes "py_run py cmd t = TimeoutExpired out err dt" and "textual out" and "textual err"
  shows "\<exists>r so se. safe_run py cmd t = Inr r \<and> \<not> run_ok r \<and> run_returncode r = 124
            \<and> run_timed_out r \<and> run_stdout r = Str so \<and> run_stderr r = Str se"
proof -
  from assms(2) obtain so where "captured_or out [] = Str so"
    using captured_or_textual by blast
  moreover from assms(3) obtain se where "captured_or err ''Process timed out.'' = Str se"
    using captured_or_textual by blast
  ultimately show ?thesis
    using safe_run_timeout [OF assms(1)] by simp
qed

lemma run_basic_unit_test_timeout:
  assumes "\<And>cmd. \<exists>out err dt. py_run py cmd timeout_sec = TimeoutExpired out err dt
                     \<and> textual out \<and> textual err"
  shows "\<exists>t. run_basic_unit_test py timeout_sec = Inr t \<and> \<not> test_ok t
              \<and> test_returncode t = 124 \<and> test_timed_out t"
proof -
  have sr: "\<exists>r so se. safe_run py cmd timeout_sec = Inr r \<and> \<not> run_ok r
                \<and> run_returncode r = 124 \<and> run_timed_out r
                \<and> run_stdout r = Str so \<and> run_stderr r = Str se" for cmd
    using assms [of cmd] safe_run_textual_timeout by blast
  let ?cmd1 = "[py_executable py, ''-I'', ''-m'', ''unittest'', ''discover'', ''-v'']"
  let ?cmd2 = "[py_executable py, ''-m'', ''unittest'', ''discover'', ''-v'']"
  from sr [of ?cmd1] obtain r1 so1 se1 where r1: "safe_run py ?cmd1 timeout_sec = Inr r1"
    "\<not> run_ok r1" "run_returncode r1 = 124" "run_timed_out r1"
    "run_stdout r1 = Str so1" "run_stderr r1 = Str se1"
    by blast
  from sr [of ?cmd2] obtain r2 where r2: "safe_run py ?cmd2 timeout_sec = Inr r2"
    "\<not> run_ok r2" "run_returncode r2 = 124" "run_timed_out r2"
    by blast
  show ?thesis
    unfolding run_basic_unit_test_def Let_def
    using r1 r2 by (simp add: py_concat_def py_in_def)
qed

text \<open>
  Claim C7, as the code has it.  On every timeout of the child process \<^verbatim>\<open>safe_run\<close>
  returns a result value (no exception) with \<^verbatim>\<open>ok\<close> false, return code 124 and
  \<^verbatim>\<open>timed_out\<close> true.  When the child processes of the run time out with captured output
  that is text or absent, \<^verbatim>\<open>run_basic_unit_test\<close> reports these flags, the analysis run
  ends with a report, and the verdict takes 50 (30 for the failure, 20 for the timeout)
  from the score before the clamp: the score is the score after the static deductions
  less 50, or 0 when that is negative, and the two notes come last, in this order.
\<close>

theorem timeout_report_costs_50_before_clamp:
  "(\<forall>cmd t out err dt. py_run py cmd t = TimeoutExpired out err dt \<longrightarrow>
      (\<exists>r. safe_run py cmd t = Inr r \<and> \<not> run_ok r \<and> run_returncode r = 124
           \<and> run_timed_out r)) \<and>
   (static_analysis py source = Inr sr \<and> syn_ok (rep_syntax sr) \<and>
    (\<forall>cmd. \<exists>out err dt. py_run py cmd 20 = TimeoutExpired out err dt
                \<and> textual out \<and> textual err) \<longrightarrow>
      (\<exists>t. run_basic_unit_test py 20 = Inr t \<and> \<not> test_ok t \<and> test_returncode t = 124
           \<and> test_timed_out t
           \<and> run_checks py source = Inr (sr, Some t, verdict sr (Some t))
           \<and> verdict_deductions sr (Some t) =
               (fst (verdict_deductions sr None) - 50,
                snd (verdict_deductions sr None)
                  @ [''Unit test failed (or crashed).'', ''Unit test timed out.''])
           \<and> v_score (verdict sr (Some t)) = max 0 (fst (verdict_deductions sr None) - 50)
           \<and> v_notes (verdict sr (Some t)) =
               v_notes (verdict sr None)
                 @ [''Unit test failed (or crashed).'', ''Unit test timed out.'']))"
proof (intro conjI allI impI)
  fix cmd t out err dt
  assume "py_run py cmd t = TimeoutExpired out err dt"
  then show "\<exists>r. safe_run py cmd t = Inr r \<and> \<not> run_ok r \<and> run_returncode r = 124
                \<and> run_timed_out r"
    by (simp add: safe_run_timeout)
next
  assume h: "static_analysis py source = Inr sr \<and> syn_ok (rep_syntax sr) \<and>
    (\<forall>cmd. \<exists>out err dt. py_run py cmd 20 = TimeoutExpired out err dt
                \<and> textual out \<and> textual err)"
  then obtain t where t: "run_basic_unit_test py 20 = Inr t" "\<not> test_ok t"
    "test_returncode t = 124" "test_timed_out t"
    using run_basic_unit_test_timeout [of py 20] by blast
  have run: "run_checks py source = Inr (sr, Some t, verdict sr (Some t))"
    using h t(1) by (simp add: run_checks_def)
  have ded: "verdict_deductions sr (Some t) =
               (fst (verdict_deductions sr None) - 50,
                snd (verdict_deductions sr None)
                  @ [''Unit test failed (or crashed).'', ''Unit test timed out.''])"
    using t(2,4) by (rule timeout_deductions)
  have sc: "v_score (verdict sr (Some t)) = max 0 (fst (verdict_deductions sr None) - 50)"
    using deductions_at_most_100 [of sr None] by (simp add: v_score_verdict ded)
  have nt: "v_notes (verdict sr (Some t)) =
              v_notes (verdict sr None)
                @ [''Unit test failed (or crashed).'', ''Unit test timed out.'']"
    by (simp add: v_notes_verdict ded)
  from t run ded sc nt
  show "\<exists>t. run_basic_unit_test py 20 = Inr t \<and> \<not> test_ok t \<and> test_returncode t = 124
           \<and> test_timed_out t
           \<and> run_checks py source = Inr (sr, Some t, verdict sr (Some t))
           \<and> verdict_deductions sr (Some t) =
               (fst (verdict_deductions sr None) - 50,
                snd (verdict_deductions sr None)
                  @ [''Unit test failed (or crashed).'', ''Unit test timed out.''])
           \<and> v_score (verdict sr (Some t)) = max 0 (fst (verdict_deductions sr None) - 50)
           \<and> v_notes (verdict sr (Some t)) =
               v_notes (verdict sr None)
                 @ [''Unit test failed (or crashed).'', ''Unit test timed out.'']"
    by blast
qed

theorem timeout_report_costs_50_before_clamp_witness:
  "safe_run hanging_python [''python''] 20 = Inr timeout_run \<and>
   (\<exists>t. run_basic_unit_test hanging_python 20 = Inr t \<and> test_timed_out t
        \<and> run_checks hanging_python demo_source
            = Inr (demo_report, Some t, verdict demo_report (Some t))
        \<and> v_score (verdict demo_report (Some t)) = 50
        \<and> v_notes (verdict demo_report (Some t))
            = [''Unit test failed (or crashed).'', ''Unit test timed out.''])"
proof -
  have run: "py_run hanging_python cmd 20 = TimeoutExpired None None 20" for cmd
    by (simp add: hanging_python_def)
  have val: "safe_run hanging_python [''python''] 20 = Inr timeout_run"
    by code_simp
  have sa: "static_analysis hanging_python demo_source = Inr demo_report"
    by code_simp
  have ok: "syn_ok (rep_syntax demo_report)"
    by (simp add: demo_report_def)
  have all: "\<forall>cmd. \<exists>out err dt. py_run hanging_python cmd 20 = TimeoutExpired out err dt
                        \<and> textual out \<and> textual err"
    using run by (auto simp: textual_def)
  have base: "fst (verdict_deductions demo_report None) = 100"
    by code_simp
  have base_notes: "v_notes (verdict demo_report None) = []"
    by code_simp
  from timeout_report_costs_50_before_clamp [of hanging_python demo_source demo_report] sa ok all
  obtain t where "run_basic_unit_test hanging_python 20 = Inr t" "test_timed_out t"
    "run_checks hanging_python demo_source = Inr (demo_report, Some t, verdict demo_report (Some t))"
    "v_score (verdict demo_report (Some t)) = max 0 (fst (verdict_deductions demo_report None) - 50)"
    "v_notes (verdict demo_report (Some t)) =
       v_notes (verdict demo_report None)
         @ [''Unit test failed (or crashed).'', ''Unit test timed out.'']"
    by blast
  with val base base_notes show ?thesis
    by auto
qed

text \<open>
  Claim C7 as stated fails at the clamp.  For a file with 60 points of static
  deductions a successful run leaves the score 40, and the timed-out run brings it to 0:
  40 points less, not 50.
\<close>

theorem timeout_deduction_clamped_counterexample:
  "v_score (verdict heavy_report (Some demo_test_report)) = 40 \<and>
   v_score (verdict heavy_report (Some timeout_test_report)) = 0"
  by code_simp

text \<open>
  When the exception of the timeout carries \<^verbatim>\<open>bytes\<close>, the retry test of
  \<^verbatim>\<open>run_basic_unit_test\<close> raises \<^verbatim>\<open>TypeError\<close> and the analysis run ends without a report.
\<close>

lemma posix_timeout_raises_type_error:
  "safe_run posix_hanging_python cmd 20
     = Inr (timeout_run\<lparr>run_stderr :=
              Bytes ''test_has_public_names (test_basic.BasicTests) ... ''\<rparr>) \<and>
   run_basic_unit_test posix_hanging_python 20 = Inl ''TypeError: can't concat str to bytes'' \<and>
   run_checks posix_hanging_python demo_source = Inl ''TypeError: can't concat str to bytes''"
proof -
  have r: "safe_run posix_hanging_python cmd 20
     = Inr (timeout_run\<lparr>run_stderr :=
              Bytes ''test_has_public_names (test_basic.BasicTests) ... ''\<rparr>)" for cmd
    by (simp add: safe_run_def posix_hanging_python_def timeout_run_def captured_or_def)
  then have t: "run_basic_unit_test posix_hanging_python 20
                  = Inl ''TypeError: can't concat str to bytes''"
    by (simp add: run_basic_unit_test_def Let_def timeout_run_def py_concat_def)
  have sa: "static_analysis posix_hanging_python demo_source = Inr demo_report"
    by code_simp
  have "run_checks posix_hanging_python demo_source = Inl ''TypeError: can't concat str to bytes''"
    using sa t by (simp add: run_checks_def demo_report_def)
  with r t show ?thesis
    by simp
qed

section \<open>Properties of the analysis run\<close>

lemma static_analysis_syntax:
  "static_analysis py source = Inr sr \<Longrightarrow> syntax_check py source = Inr (rep_syntax sr)"
  by (auto simp: static_analysis_def Let_def split: sum.splits)

lemma syntax_check_error_iff:
  "syntax_check py source = Inr r \<Longrightarrow> (syn_error r = None) = syn_ok r"
  by (auto simp: syntax_check_def split: compile_outcome.splits)

lemma deduct_le: "0 \<le> d \<Longrightarrow> fst st \<le> b \<Longrightarrow> fst (deduct c d n st) \<le> b"
  by (simp add: deduct_def)

lemma syntax_invalid_score:
  assumes "\<not> syn_ok (rep_syntax sr)"
  shows "fst (verdict_deductions sr tr) \<le> 20"
proof -
  have first: "deduct (\<not> syn_ok (rep_syntax sr)) 80 n (100, []) = (20, [n])" for n
    using assms by (simp add: deduct_def)
  show ?thesis
    unfolding verdict_deductions_def Let_def first
    by (cases "rep_ast sr"; cases tr; simp only: ast_block.case option.case)
       (intro deduct_le; simp)+
qed

text \<open>
  The analysis run ends without a report only when \<^verbatim>\<open>compile\<close> raises something other
  than \<^verbatim>\<open>SyntaxError\<close>, when the child process cannot be started, or when a timed-out child
  process left \<^verbatim>\<open>bytes\<close> behind.
\<close>

lemma safe_run_fails:
  "safe_run py cmd t = Inl e \<Longrightarrow> py_run py cmd t = SpawnRaises e"
  by (auto simp: safe_run_def split: proc_outcome.splits)

lemma safe_run_bytes:
  assumes "safe_run py cmd t = Inr r"
    and "(\<exists>b. run_stdout r = Bytes b) \<or> (\<exists>b. run_stderr r = Bytes b)"
  shows "\<exists>out err dt. py_run py cmd t = TimeoutExpired out err dt \<and> \<not> (textual out \<and> textual err)"
  using assms
  by (auto simp: safe_run_def captured_or_def textual_def
      split: proc_outcome.splits option.splits captured.splits if_splits)

lemma retry_test_fails:
  assumes "(case py_concat a b of Inl e \<Rightarrow> Inl e | Inr both \<Rightarrow> py_in key both) = Inl e"
  shows "(\<exists>x. b = Bytes x) \<or> (\<exists>x. a = Bytes x)"
  using assms by (cases a; cases b) (simp_all add: py_concat_def py_in_def)

lemma run_basic_unit_test_fails:
  assumes "run_basic_unit_test py t = Inl e"
  shows "(\<exists>cmd. py_run py cmd t = SpawnRaises e)
         \<or> (\<exists>cmd out err dt. py_run py cmd t = TimeoutExpired out err dt
                \<and> \<not> (textual out \<and> textual err))"
proof -
  let ?cmd1 = "[py_executable py, ''-I'', ''-m'', ''unittest'', ''discover'', ''-v'']"
  let ?cmd2 = "[py_executable py, ''-m'', ''unittest'', ''discover'', ''-v'']"
  show ?thesis
  proof (cases "safe_run py ?cmd1 t")
    case (Inl x)
    with assms have "x = e"
      by (simp add: run_basic_unit_test_def Let_def)
    with Inl show ?thesis
      using safe_run_fails by blast
  next
    case (Inr r1)
    let ?retry = "if run_ok r1 then Inr False
                  else case py_concat (run_stderr r1) (run_stdout r1) of
                         Inl e \<Rightarrow> Inl e
                       | Inr both \<Rightarrow> py_in ''ModuleNotFoundError'' both"
    show ?thesis
    proof (cases ?retry)
      case bad: (Inl x)
      then have "(\<exists>b. run_stdout r1 = Bytes b) \<or> (\<exists>b. run_stderr r1 = Bytes b)"
        using retry_test_fails [where a = "run_stderr r1" and b = "run_stdout r1"
            and key = "''ModuleNotFoundError''" and e = x]
        by (simp split: if_splits)
      with Inr show ?thesis
        using safe_run_bytes by blast
    next
      case again: (Inr g)
      with assms Inr have "g \<and> safe_run py ?cmd2 t = Inl e"
        by (simp add: run_basic_unit_test_def Let_def split: if_splits sum.splits)
      then show ?thesis
        using safe_run_fails by blast
    qed
  qed
qed

lemma static_analysis_fails:
  "static_analysis py source = Inl e \<Longrightarrow> py_compile py source = RaisesOther e"
  by (auto simp: static_analysis_def syntax_check_def Let_def
      split: sum.splits compile_outcome.splits)

lemma run_checks_fails:
  assumes "run_checks py source = Inl e"
  shows "py_compile py source = RaisesOther e
         \<or> (\<exists>cmd. py_run py cmd 20 = SpawnRaises e)
         \<or> (\<exists>cmd out err dt. py_run py cmd 20 = TimeoutExpired out err dt
                \<and> \<not> (textual out \<and> textual err))"
proof (cases "static_analysis py source")
  case (Inl x)
  with assms have "x = e"
    by (simp add: run_checks_def)
  with Inl show ?thesis
    using static_analysis_fails by blast
next
  case (Inr sr)
  with assms have "run_basic_unit_test py 20 = Inl e"
    by (simp add: run_checks_def split: if_splits sum.splits)
  then show ?thesis
    using run_basic_unit_test_fails by blast
qed

text \<open>The run on the example module, evaluated.\<close>

lemma demo_run:
  "run_checks demo_python demo_source = Inr (demo_report, Some demo_test_report, demo_verdict)"
  by code_simp

text \<open>
  Claim C2.  Whenever the analysis run ends with a report, the report holds a sandbox
  result exactly when the syntax check returned \<^verbatim>\<open>ok: True\<close>, and that result is the one of
  \<^verbatim>\<open>run_basic_unit_test\<close>.  For a syntactically invalid text the syntax result carries an
  error record, no sandbox run takes place (the verdict is computed with \<^verbatim>\<open>None\<close> as test
  report), and the score of the verdict is at most 20.
\<close>

theorem sandbox_run_iff_syntax_ok:
  assumes "run_checks py source = Inr (sr, tr, v)"
  shows "syntax_check py source = Inr (rep_syntax sr) \<and>
         (tr \<noteq> None) = syn_ok (rep_syntax sr) \<and>
         (\<forall>t. tr = Some t \<longrightarrow> run_basic_unit_test py 20 = Inr t) \<and>
         v = verdict sr tr \<and>
         (\<not> syn_ok (rep_syntax sr) \<longrightarrow>
            syn_error (rep_syntax sr) \<noteq> None \<and> tr = None \<and> v_score v \<le> 20)"
proof -
  from assms obtain sa: "static_analysis py source = Inr sr"
    by (auto simp: run_checks_def split: sum.splits if_splits)
  then have syn: "syntax_check py source = Inr (rep_syntax sr)"
    by (rule static_analysis_syntax)
  show ?thesis
  proof (cases "syn_ok (rep_syntax sr)")
    case True
    with assms sa syn show ?thesis
      by (auto simp: run_checks_def split: sum.splits)
  next
    case False
    with assms sa have res: "tr = None" "v = verdict sr None"
      by (auto simp: run_checks_def)
    from False syn have "syn_error (rep_syntax sr) \<noteq> None"
      by (simp add: syntax_check_error_iff)
    moreover from False have "v_score (verdict sr None) \<le> 20"
      using syntax_invalid_score [of sr None] by (simp add: v_score_verdict)
    ultimately show ?thesis
      using False syn res by simp
  qed
qed

theorem sandbox_run_iff_syntax_ok_witness:
  "run_checks demo_python broken_source = Inr (broken_report, None, broken_verdict) \<and>
   \<not> syn_ok (rep_syntax broken_report) \<and> syn_error (rep_syntax broken_report) \<noteq> None \<and>
   v_score broken_verdict \<le> 20 \<and>
   run_checks demo_python demo_source = Inr (demo_report, Some demo_test_report, demo_verdict) \<and>
   syn_ok (rep_syntax demo_report) \<and>
   run_basic_unit_test demo_python 20 = Inr demo_test_report"
proof -
  have b: "run_checks demo_python broken_source = Inr (broken_report, None, broken_verdict)"
    by code_simp
  have d: "run_checks demo_python demo_source
             = Inr (demo_report, Some demo_test_report, demo_verdict)"
    by (rule demo_run)
  have nb: "\<not> syn_ok (rep_syntax broken_report)"
    by (simp add: broken_report_def)
  from sandbox_run_iff_syntax_ok [OF b] nb
  have "syn_error (rep_syntax broken_report) \<noteq> None \<and> v_score broken_verdict \<le> 20"
    by simp
  moreover from sandbox_run_iff_syntax_ok [OF d]
  have "syn_ok (rep_syntax demo_report) \<and> run_basic_unit_test demo_python 20 = Inr demo_test_report"
    by simp
  ultimately show ?thesis
    using b d nb by simp
qed

section \<open>Properties of the naming check\<close>

lemma dunder_is_private: "startswith nm ''__'' \<Longrightarrow> startswith nm ''_''"
  by (cases nm) (auto simp: startswith_def)

lemma naming_step_function_issues:
  "filter is_function_issue (ns_naming_issues (naming_step py n st))
     = filter is_function_issue (ns_naming_issues st)
       @ (case flagged_function n of None \<Rightarrow> [] | Some i \<Rightarrow> [i])"
  by (auto simp: naming_step_def flagged_function_def is_function_issue_def Let_def
           dest: dunder_is_private split: node_kind.splits)

lemma naming_loop_function_issues:
  "filter is_function_issue (ns_naming_issues (naming_loop py ns st))
     = filter is_function_issue (ns_naming_issues st) @ List.map_filter flagged_function ns"
proof (induction ns arbitrary: st)
  case Nil
  then show ?case by (simp add: List.map_filter_simps)
next
  case (Cons n ns)
  then show ?case
    by (simp add: naming_step_function_issues split: option.split)
qed

text \<open>
  The pattern \<^verbatim>\<open>^[a-z_][a-z0-9_]*$\<close> on a name without newline: the name is not empty,
  starts with a lowercase letter or an underscore, and goes on with lowercase letters,
  digits and underscores.
\<close>

lemma snake_case_match_iff:
  assumes "CHR 0x0A \<notin> set nm"
  shows "snake_case_match nm \<longleftrightarrow>
           nm \<noteq> [] \<and> (is_lower (hd nm) \<or> hd nm = CHR ''_'')
           \<and> (\<forall>c \<in> set (tl nm). is_lower c \<or> is_digit c \<or> c = CHR ''_'')"
proof (cases nm)
  case Nil
  then show ?thesis by (simp add: snake_case_match_def)
next
  case (Cons c cs)
  let ?P = "\<lambda>x. is_lower x \<or> is_digit x \<or> x = CHR ''_''"
  have "dropWhile ?P cs \<noteq> [CHR 0x0A]"
  proof
    assume "dropWhile ?P cs = [CHR 0x0A]"
    then have "CHR 0x0A \<in> set (dropWhile ?P cs)" by simp
    then have "CHR 0x0A \<in> set cs" by (rule set_dropWhileD)
    with assms Cons show False by simp
  qed
  then show ?thesis
    using Cons by (simp add: snake_case_match_def re_end_def)
qed

text \<open>
  Claim C6, as the code has it.  The naming issues of kind \<^verbatim>\<open>FunctionNameNotSnakeCase\<close>
  are, in source order, exactly the top-level functions and coroutines of the module
  whose name does not start with an underscore (which covers the names in double
  underscores) and fails the lowercase snake-case pattern.  Only the members of the
  module body are inspected: a method inside a class is never checked.
\<close>

theorem top_level_function_names_checked:
  assumes "docstrings_and_naming py tree = Inr r"
  shows "filter is_function_issue (naming_issues r)
           = List.map_filter flagged_function (field ''body'' tree)"
  using assms
  by (auto simp: docstrings_and_naming_def Let_def naming_loop_function_issues split: sum.splits)

theorem top_level_function_names_checked_witness:
  "(case docstrings_and_naming demo_python naming_tree of
      Inl e \<Rightarrow> None
    | Inr r \<Rightarrow> Some (filter is_function_issue (naming_issues r)))
   = Some naming_tree_issues"
proof -
  obtain r where r: "docstrings_and_naming demo_python naming_tree = Inr r"
    by (simp add: docstrings_and_naming_def get_docstring_def can_have_docstring_def
        naming_tree_def Let_def)
  have flagged: "List.map_filter flagged_function (field ''body'' naming_tree) = naming_tree_issues"
    by code_simp
  from top_level_function_names_checked [OF r] flagged
  have "filter is_function_issue (naming_issues r) = naming_tree_issues"
    by simp
  with r show ?thesis
    by simp
qed

text \<open>
  Claim C6 as stated fails for methods: the method \<^verbatim>\<open>BadName\<close> of the class \<^verbatim>\<open>Widget\<close>
  fails the pattern and has no leading underscore, and no naming issue is reported.
\<close>

theorem method_names_unchecked_counterexample:
  "docstrings_and_naming demo_python method_tree = Inr method_ds \<and>
   naming_issues method_ds = [] \<and>
   \<not> snake_case_match ''BadName'' \<and> \<not> startswith ''BadName'' ''_''"
  by code_simp

section \<open>Properties of the complexity count\<close>

lemma subtree_children:
  "subtree n = n # concat (map subtree (iter_child_nodes n))"
proof (cases n)
  case (Node k l fs)
  have "concat (map (\<lambda>f. concat (map subtree (snd f))) fs)
        = concat (map subtree (concat (map snd fs)))"
    by (induction fs) simp_all
  with Node show ?thesis
    by (simp add: iter_child_nodes_def)
qed

text \<open>The breadth-first walk meets the nodes of the subtree, each once: sums agree.\<close>

lemma sum_walk_queue:
  fixes f :: "ast_node \<Rightarrow> int"
  shows "sum_list (map f (walk_queue q)) = sum_list (map f (concat (map subtree q)))"
proof (induction q rule: walk_queue.induct)
  case 1
  then show ?case by simp
next
  case (2 n todo)
  have "sum_list (map f (concat (map subtree (n # todo))))
        = f n + sum_list (map f (concat (map subtree (iter_child_nodes n))))
          + sum_list (map f (concat (map subtree todo)))"
    by (simp add: subtree_children [of n])
  with 2 show ?case
    by simp
qed

lemma complexity_of_subtree:
  "complexity_of fn = 1 + sum_list (map complexity_inc (subtree fn))"
  by (simp add: complexity_of_def walk_def sum_walk_queue del: walk_queue.simps)

lemma spec_weight_inc: "spec_weight n = complexity_inc n + (if missed_kind n then 1 else 0)"
  by (simp add: spec_weight_def complexity_inc_def missed_kind_def)

text \<open>
  The computed score is the count of the specification less the number of
  \<^verbatim>\<open>async for\<close> and \<^verbatim>\<open>try/except*\<close> nodes in the subtree; the two agree on every function
  without such nodes.
\<close>

lemma complexity_gap:
  "spec_complexity fn = complexity_of fn + int (length (filter missed_kind (subtree fn)))"
proof -
  have "sum_list (map spec_weight ns)
        = sum_list (map complexity_inc ns) + int (length (filter missed_kind ns))" for ns
    by (induction ns) (simp_all add: spec_weight_inc)
  then show ?thesis
    by (simp add: spec_complexity_def complexity_of_subtree)
qed

lemma complexity_refines_spec:
  assumes "\<forall>n \<in> set (subtree fn). kind n \<noteq> AsyncFor \<and> kind n \<noteq> TryStar"
  shows "complexity_of fn = spec_complexity fn"
proof -
  from assms have "filter missed_kind (subtree fn) = []"
    by (auto simp: filter_empty_conv missed_kind_def)
  then show ?thesis
    by (simp add: complexity_gap)
qed

text \<open>
  Claim C5 at a coroutine whose body is one \<^verbatim>\<open>async for\<close> loop: the visitor reports
  complexity 1, where the claim (1, plus 1 for each loop) gives 2.
\<close>

theorem async_for_loop_not_counted:
  "visit async_for_function = [(''pump'', 1, 1)] \<and>
   complexity_of async_for_function = 1 \<and>
   spec_complexity async_for_function = 2"
  by code_simp

section \<open>Properties of the style scanner\<close>

lemma style_line_effect:
  "st_issues (style_line i l st) = st_issues st @ line_issues i l"
  "has_tab_indent (style_line i l st) = (has_tab_indent st \<or> startswith l [CHR 0x09])"
  "has_space_indent (style_line i l st) = (has_space_indent st \<or> startswith l [CHR 0x20])"
  "mixed_indentation (st_counts (style_line i l st)) = mixed_indentation (st_counts st)"
  "total_lines (st_counts (style_line i l st)) = total_lines (st_counts st)"
  "long_lines_gt_100 (st_counts (style_line i l st))
     = long_lines_gt_100 (st_counts st) + (if is_long l then 1 else 0)"
  "trailing_whitespace_lines (st_counts (style_line i l st))
     = trailing_whitespace_lines (st_counts st) + (if has_trailing l then 1 else 0)"
  by (simp_all add: style_line_def line_issues_def is_long_def has_trailing_def Let_def)

lemma style_loop_effect:
  "st_issues (style_loop i ls st) = st_issues st @ loop_issues i ls"
  "has_tab_indent (style_loop i ls st) = (has_tab_indent st \<or> (\<exists>l \<in> set ls. startswith l [CHR 0x09]))"
  "has_space_indent (style_loop i ls st) = (has_space_indent st \<or> (\<exists>l \<in> set ls. startswith l [CHR 0x20]))"
  "mixed_indentation (st_counts (style_loop i ls st)) = mixed_indentation (st_counts st)"
  "long_lines_gt_100 (st_counts (style_loop i ls st))
     = long_lines_gt_100 (st_counts st) + length (filter is_long ls)"
  "trailing_whitespace_lines (st_counts (style_loop i ls st))
     = trailing_whitespace_lines (st_counts st) + length (filter has_trailing ls)"
  by (induction ls arbitrary: i st; auto simp: style_line_effect)+

lemma length_loop_issues:
  "length (loop_issues i ls) = length (filter is_long ls) + length (filter has_trailing ls)"
  by (induction ls arbitrary: i) (simp_all add: line_issues_def)

lemma loop_issues_have_line: "x \<in> set (loop_issues i ls) \<Longrightarrow> issue_line x \<noteq> None"
  by (induction ls arbitrary: i) (auto simp: line_issues_def split: if_splits)

lemma style_check_counts:
  "mixed_indentation (counts (style_check source))
     = (if tab_indented source \<and> space_indented source then 1 else 0)"
  "long_lines_gt_100 (counts (style_check source))
     = length (filter is_long (splitlines_keepends source))"
  "trailing_whitespace_lines (counts (style_check source))
     = length (filter has_trailing (splitlines_keepends source))"
  by (simp_all add: style_check_def Let_def style_loop_effect tab_indented_def space_indented_def)

lemma style_check_issues:
  "issues (style_check source)
     = take 200 (loop_issues 1 (splitlines_keepends source)
                 @ (if tab_indented source \<and> space_indented source then [mixed_issue] else []))"
  by (simp add: style_check_def Let_def style_loop_effect tab_indented_def space_indented_def
      mixed_issue_def)

lemma filter_no_line_loop_issues: "filter (\<lambda>x. issue_line x = None) (loop_issues i ls) = []"
  by (auto simp: filter_empty_conv dest: loop_issues_have_line)

lemma no_line_take_loop_issues:
  "filter (\<lambda>x. issue_line x = None) (take n (loop_issues i ls)) = []"
  by (auto simp: filter_empty_conv dest: in_set_takeD loop_issues_have_line)

lemma whole_file_issues:
  "filter (\<lambda>x. issue_line x = None) (issues (style_check source))
     = (if tab_indented source \<and> space_indented source
           \<and> long_lines_gt_100 (counts (style_check source))
               + trailing_whitespace_lines (counts (style_check source)) < 200
        then [mixed_issue] else [])"
proof -
  let ?li = "loop_issues 1 (splitlines_keepends source)"
  let ?none = "\<lambda>x. issue_line x = None"
  have len: "long_lines_gt_100 (counts (style_check source))
               + trailing_whitespace_lines (counts (style_check source)) = length ?li"
    by (simp add: length_loop_issues style_check_counts)
  have no_line: "filter ?none (take n ?li) = []" for n
    by (auto simp: filter_empty_conv dest: in_set_takeD loop_issues_have_line)
  have last: "filter ?none (take (200 - length ?li) [mixed_issue])
              = (if length ?li < 200 then [mixed_issue] else [])"
    by (cases "200 - length ?li") (simp_all add: mixed_issue_def)
  show ?thesis
  proof (cases "tab_indented source \<and> space_indented source")
    case True
    then have "issues (style_check source) = take 200 ?li @ take (200 - length ?li) [mixed_issue]"
      by (simp add: style_check_issues)
    then show ?thesis
      using True by (simp only: filter_append no_line last len append_Nil if_True simp_thms)
  next
    case False
    have "issues (style_check source) = take 200 ?li"
      by (simp add: style_check_issues False)
    then show ?thesis
      using False by (auto simp: no_line_take_loop_issues)
  qed
qed

lemma splitlines_from_boundary:
  "is_line_boundary c \<Longrightarrow> c \<noteq> CHR 0x0D \<Longrightarrow>
   splitlines_from cur (c # xs) = (cur @ [c]) # splitlines_from [] xs"
  by (cases xs) simp_all

lemma splitlines_from_plain:
  "\<not> is_line_boundary c \<Longrightarrow> splitlines_from cur (c # xs) = splitlines_from (cur @ [c]) xs"
  by (cases xs) (simp_all add: is_line_boundary_def)

lemma splitlines_from_replicate:
  "splitlines_from [] (concat (replicate n [CHR 0x20, CHR 0x0A]) @ rest)
     = replicate n [CHR 0x20, CHR 0x0A] @ splitlines_from [] rest"
  by (induction n) (simp_all add: splitlines_from_plain splitlines_from_boundary is_line_boundary_def)

lemma capped_lines:
  "splitlines_keepends capped_source = replicate 200 [CHR 0x20, CHR 0x0A] @ [[CHR 0x09, CHR ''x'']]"
  by (simp add: splitlines_keepends_def capped_source_def splitlines_from_replicate
      splitlines_from_plain is_line_boundary_def)

text \<open>
  Claim C8, as the code has it.  The mixed-indentation flag is 1 when some line of the
  file begins with a tab and some line begins with a space, and 0 otherwise.  When the
  flag is set, the whole-file issue (the only issue without a line) is appended after the
  per-line issues and the list is then cut to its first 200 entries: the report holds
  that issue, once, exactly when the flag is set and fewer than 200 long-line and
  trailing-white-space issues precede it; otherwise it holds no issue without a line.
\<close>

theorem mixed_indentation_flag_and_issue:
  "mixed_indentation (counts (style_check source))
     = (if tab_indented source \<and> space_indented source then 1 else 0) \<and>
   filter (\<lambda>x. issue_line x = None) (issues (style_check source))
     = (if tab_indented source \<and> space_indented source
           \<and> long_lines_gt_100 (counts (style_check source))
               + trailing_whitespace_lines (counts (style_check source)) < 200
        then [mixed_issue] else [])"
  using style_check_counts(1) [of source] whole_file_issues [of source] by simp

theorem mixed_indentation_flag_and_issue_witness:
  "mixed_indentation (counts (style_check mixed_source)) = 1 \<and>
   filter (\<lambda>x. issue_line x = None) (issues (style_check mixed_source)) = [mixed_issue] \<and>
   mixed_indentation (counts (style_check demo_source)) = 0 \<and>
   filter (\<lambda>x. issue_line x = None) (issues (style_check demo_source)) = []"
proof -
  have m: "tab_indented mixed_source" "space_indented mixed_source"
    by code_simp+
  have few: "long_lines_gt_100 (counts (style_check mixed_source))
               + trailing_whitespace_lines (counts (style_check mixed_source)) < 200"
    by code_simp
  have d: "\<not> tab_indented demo_source"
    by code_simp
  from mixed_indentation_flag_and_issue [of mixed_source] m few
  have "mixed_indentation (counts (style_check mixed_source)) = 1 \<and>
        filter (\<lambda>x. issue_line x = None) (issues (style_check mixed_source)) = [mixed_issue]"
    by simp
  moreover from mixed_indentation_flag_and_issue [of demo_source] d
  have "mixed_indentation (counts (style_check demo_source)) = 0 \<and>
        filter (\<lambda>x. issue_line x = None) (issues (style_check demo_source)) = []"
    by simp
  ultimately show ?thesis
    by simp
qed

text \<open>
  Claim C8 as stated fails when the cap cuts the whole-file issue off: with 200
  trailing-white-space issues before it, the flag is set and the report holds no issue
  without a line.
\<close>

theorem mixed_issue_cut_by_cap_counterexample:
  "mixed_indentation (counts (style_check capped_source)) = 1 \<and>
   filter (\<lambda>i. issue_line i = None) (issues (style_check capped_source)) = []"
proof -
  have ti: "tab_indented capped_source" "space_indented capped_source"
    by (simp_all add: tab_indented_def space_indented_def capped_lines startswith_def)
  have tr: "has_trailing [CHR 0x20, CHR 0x0A]"
    by (simp add: has_trailing_def rstrip_def)
  have "trailing_whitespace_lines (counts (style_check capped_source)) \<ge> 200"
    by (simp add: style_check_counts capped_lines tr)
  with ti show ?thesis
    by (simp add: whole_file_issues style_check_counts(1))
qed



section \<open>The clean file\<close>

lemma str_int_100: "str_int 100 = ''100''"
  by code_simp

lemma naming_step_expr: "kind n = Expr \<Longrightarrow> naming_step py n st = st"
  by (simp add: naming_step_def)

lemma docstring_first_is_expr:
  "docstring_of py node \<noteq> None \<Longrightarrow> field ''body'' node = s # rest \<Longrightarrow> kind s = Expr"
  by (auto simp: docstring_of_def split: if_splits)

lemma naming_step_documented_function:
  assumes "kind fn = FunctionDef nm \<or> kind fn = AsyncFunctionDef nm"
    and "docstring_of py fn \<noteq> None" and "snake_case_match nm"
  shows "naming_step py fn st
           = st\<lparr>fn_info := fn_info st @ [\<lparr>def_name = nm, def_lineno = lineno fn, has_docstring = True\<rparr>]\<rparr>"
  using assms by (auto simp: naming_step_def Let_def)

lemma clean_docstrings_and_naming:
  assumes "kind tree = Module"
    and "field ''body'' tree = [doc_stmt, fn]"
    and "docstring_of py tree \<noteq> None"
    and "kind fn = FunctionDef nm \<or> kind fn = AsyncFunctionDef nm"
    and "docstring_of py fn \<noteq> None"
    and "snake_case_match nm"
  shows "\<exists>ds. docstrings_and_naming py tree = Inr ds \<and> module_has_docstring ds
              \<and> missing_function_docstrings ds = 0 \<and> naming_issues ds = []"
proof -
  have "kind doc_stmt = Expr"
    using assms(2,3) by (rule docstring_first_is_expr [rotated])
  then show ?thesis
    using assms
    by (simp add: docstrings_and_naming_def get_docstring_def can_have_docstring_def Let_def
        naming_step_expr naming_step_documented_function)
qed

lemma clean_verdict:
  assumes "syn_ok (rep_syntax sr)"
    and "mixed_indentation (counts (rep_style sr)) = 0"
    and "long_lines_gt_100 (counts (rep_style sr)) = 0"
    and "flags (rep_risky_patterns sr) = []"
    and "rep_ast sr = AstOk ds top5 all_entries"
    and "module_has_docstring ds" and "missing_function_docstrings ds = 0"
    and "naming_issues ds = []"
    and "test_ok t" and "\<not> test_timed_out t"
  shows "verdict sr (Some t) = \<lparr>v_score = 100, v_level = ''Excellent'', v_notes = []\<rparr>"
  using assms by (simp add: verdict_def verdict_deductions_def deduct_def Let_def level_of_def)

text \<open>
  Claim C4, as the code has it.  For a file that compiles, whose module has a docstring
  and whose body is that docstring and one documented function with a lowercase
  snake-case name, with no line longer than 100 characters, no mixed indentation, no
  risk pattern, and whose sandbox run ends with return code 0, the analysis run ends with
  a verdict of score 100 and an empty list of notes, and the summary of the report shows
  exactly one note, that no major issues were detected.
\<close>

theorem clean_file_scores_100:
  assumes "py_compile py source = Compiled"
    and "py_parse py source = Inr tree"
    and "kind tree = Module"
    and "field ''body'' tree = [doc_stmt, fn]"
    and "docstring_of py tree \<noteq> None"
    and "kind fn = FunctionDef nm \<or> kind fn = AsyncFunctionDef nm"
    and "docstring_of py fn \<noteq> None"
    and "snake_case_match nm"
    and "\<forall>l \<in> set (splitlines_keepends source). \<not> is_long l"
    and "\<not> (tab_indented source \<and> space_indented source)"
    and "flags (risky_patterns source) = []"
    and "py_run py [py_executable py, ''-I'', ''-m'', ''unittest'', ''discover'', ''-v''] 20
           = Completed 0 out err dt"
  shows "\<exists>sr t v. run_checks py source = Inr (sr, Some t, v)
           \<and> v = verdict sr (Some t) \<and> v_score v = 100 \<and> v_notes v = []
           \<and> render_summary v =
               [''=== Summary ==='' @ [CHR 0x0A],
                ''Score: 100   Level: Excellent'' @ [CHR 0x0A],
                ''Notes:'' @ [CHR 0x0A] @ ''  - No major issues detected.'' @ [CHR 0x0A]]"
proof -
  from assms(3-8) obtain ds where ds: "docstrings_and_naming py tree = Inr ds"
    "module_has_docstring ds" "missing_function_docstrings ds = 0" "naming_issues ds = []"
    using clean_docstrings_and_naming by blast
  have syn: "syntax_check py source = Inr \<lparr>syn_ok = True, syn_error = None\<rparr>"
    using assms(1) by (simp add: syntax_check_def)
  from assms(9) have nolong: "filter is_long (splitlines_keepends source) = []"
    by (simp add: filter_empty_conv)
  obtain sr where sr: "static_analysis py source = Inr sr" "syn_ok (rep_syntax sr)"
    "rep_style sr = style_check source" "rep_risky_patterns sr = risky_patterns source"
    "\<exists>top5 all_entries. rep_ast sr = AstOk ds top5 all_entries"
    using syn assms(2) ds(1) by (simp add: static_analysis_def Let_def)
  from sr(5) obtain top5 all_entries where ast: "rep_ast sr = AstOk ds top5 all_entries"
    by blast
  obtain t where t: "run_basic_unit_test py 20 = Inr t" "test_ok t" "\<not> test_timed_out t"
    using assms(12) by (simp add: run_basic_unit_test_def safe_run_def Let_def)
  have v: "verdict sr (Some t) = \<lparr>v_score = 100, v_level = ''Excellent'', v_notes = []\<rparr>"
    using sr(2) _ _ _ ast ds(2-4) t(2,3)
    by (rule clean_verdict)
       (simp_all add: sr(3,4) style_check_counts assms(10,11) nolong)
  have "run_checks py source = Inr (sr, Some t, verdict sr (Some t))"
    using sr(1,2) t(1) by (simp add: run_checks_def)
  moreover have "render_summary (verdict sr (Some t)) =
               [''=== Summary ==='' @ [CHR 0x0A],
                ''Score: 100   Level: Excellent'' @ [CHR 0x0A],
                ''Notes:'' @ [CHR 0x0A] @ ''  - No major issues detected.'' @ [CHR 0x0A]]"
    unfolding v by (simp add: render_summary_def str_int_100)
  ultimately show ?thesis
    using v by simp
qed

theorem clean_file_scores_100_witness:
  "\<exists>sr t v. run_checks demo_python demo_source = Inr (sr, Some t, v)
      \<and> v = verdict sr (Some t) \<and> v_score v = 100 \<and> v_notes v = []
      \<and> render_summary v =
          [''=== Summary ==='' @ [CHR 0x0A],
           ''Score: 100   Level: Excellent'' @ [CHR 0x0A],
           ''Notes:'' @ [CHR 0x0A] @ ''  - No major issues detected.'' @ [CHR 0x0A]]"
proof (rule clean_file_scores_100 [where tree = demo_tree and fn = demo_function
      and nm = "''add_one''" and out = "[]" and err = "''OK''" and dt = "1 / 4"
      and doc_stmt = "Node Expr 1 [(''value'', [Node (ConstantStr ''Doc.'') 1 []])]"])
  show "py_compile demo_python demo_source = Compiled"
    by code_simp
  show "py_parse demo_python demo_source = Inr demo_tree"
    by (simp add: demo_python_def)
  show "kind demo_tree = Module"
    by (simp add: demo_tree_def)
  show "field ''body'' demo_tree
          = [Node Expr 1 [(''value'', [Node (ConstantStr ''Doc.'') 1 []])], demo_function]"
    by (simp add: demo_tree_def field_def)
  show "docstring_of demo_python demo_tree \<noteq> None"
    by code_simp
  show "kind demo_function = FunctionDef ''add_one'' \<or> kind demo_function = AsyncFunctionDef ''add_one''"
    by (simp add: demo_function_def)
  show "docstring_of demo_python demo_function \<noteq> None"
    by code_simp
  show "snake_case_match ''add_one''"
    by code_simp
  show "\<forall>l \<in> set (splitlines_keepends demo_source). \<not> is_long l"
    by code_simp
  show "\<not> (tab_indented demo_source \<and> space_indented demo_source)"
    by code_simp
  show "flags (risky_patterns demo_source) = []"
    by code_simp
  show "py_run demo_python
          [py_executable demo_python, ''-I'', ''-m'', ''unittest'', ''discover'', ''-v''] 20
          = Completed 0 [] ''OK'' (1 / 4)"
    by (simp add: demo_python_def)
qed

text \<open>
  Claim C4 as stated fails at the notes: \<^verbatim>\<open>verdict\<close> returns an empty list for the clean
  file, and the single note is text of the renderer.
\<close>

theorem clean_verdict_has_no_note_counterexample:
  "run_checks demo_python demo_source = Inr (demo_report, Some demo_test_report, demo_verdict) \<and>
   v_score demo_verdict = 100 \<and> v_notes demo_verdict = []"
  using demo_run by (simp add: demo_verdict_def)

end
